theory Spec2Isabelle
  imports Complex_Main "HOL-Library.Char_ord" "HOL-Library.List_Lexorder"
    "HOL-Library.Product_Lexorder" "HOL-Library.Multiset"
begin

section \<open>Floating-point values, errors and the tabular dataset\<close>

text \<open>
  The engine of \<^verbatim>\<open>utils_stats.py\<close> computes with NumPy floats. Finite floats are
  idealised as exact reals; the one non-finite value the code can meet at a guard or a
  comparison, NaN (the mean of an empty sample, the standard deviation of a sample of
  one, the square root of a negative number), is kept as a value of its own, because
  every guard of the source (\<^verbatim>\<open>x > 0\<close>, \<^verbatim>\<open>v < 0.1\<close>) is false on it.
  Rounding and overflow are not modelled.
\<close>

datatype fl = Fin real | NaN

fun flt :: "fl \<Rightarrow> fl \<Rightarrow> bool" where
  "flt (Fin a) (Fin b) = (a < b)"
| "flt _ _ = False"

fun fgt :: "fl \<Rightarrow> fl \<Rightarrow> bool" where
  "fgt (Fin a) (Fin b) = (a > b)"
| "fgt _ _ = False"

fun fadd :: "fl \<Rightarrow> fl \<Rightarrow> fl" where
  "fadd (Fin a) (Fin b) = Fin (a + b)"
| "fadd _ _ = NaN"

fun fsub :: "fl \<Rightarrow> fl \<Rightarrow> fl" where
  "fsub (Fin a) (Fin b) = Fin (a - b)"
| "fsub _ _ = NaN"

fun fmul :: "fl \<Rightarrow> fl \<Rightarrow> fl" where
  "fmul (Fin a) (Fin b) = Fin (a * b)"
| "fmul _ _ = NaN"

text \<open>
  Division: every division of the source sits behind a guard that excludes a zero
  divisor, so the quotient by zero (an infinity or NaN in NumPy) is never taken; it is
  written as NaN here.
\<close>

fun fdiv :: "fl \<Rightarrow> fl \<Rightarrow> fl" where
  "fdiv (Fin a) (Fin b) = (if b = 0 then NaN else Fin (a / b))"
| "fdiv _ _ = NaN"

fun fabs :: "fl \<Rightarrow> fl" where
  "fabs (Fin a) = Fin \<bar>a\<bar>"
| "fabs NaN = NaN"

text \<open>\<^verbatim>\<open>np.sqrt\<close>: NaN on a negative argument.\<close>

fun np_sqrt :: "fl \<Rightarrow> fl" where
  "np_sqrt (Fin a) = (if a < 0 then NaN else Fin (sqrt a))"
| "np_sqrt NaN = NaN"

text \<open>
  Python's builtins \<^verbatim>\<open>max(a, b)\<close> and \<^verbatim>\<open>min(a, b)\<close> return \<^verbatim>\<open>a\<close> unless
  \<^verbatim>\<open>b > a\<close> (respectively \<^verbatim>\<open>b < a\<close>); a NaN second argument is therefore dropped.
\<close>

definition py_max :: "fl \<Rightarrow> fl \<Rightarrow> fl" where
  "py_max a b = (if fgt b a then b else a)"

definition py_min :: "fl \<Rightarrow> fl \<Rightarrow> fl" where
  "py_min a b = (if flt b a then b else a)"

datatype error = KeyError | ValueError | TypeError

text \<open>An exception leaves the function at the statement that raises it.\<close>

definition ebind :: "error + 'a \<Rightarrow> ('a \<Rightarrow> error + 'b) \<Rightarrow> error + 'b" where
  "ebind m f = (case m of Inl e \<Rightarrow> Inl e | Inr x \<Rightarrow> f x)"

text \<open>
  A DataFrame is a list of named columns of one length. A column is of object or
  category dtype (labels) or numeric; \<open>None\<close> is a missing entry (NaN).
\<close>

datatype val = S string | N real

datatype column = ObjCol "string option list" | NumCol "real option list"

type_synonym dataframe = "(string \<times> column) list"

text \<open>\<^verbatim>\<open>df[name]\<close> raises KeyError on an absent column.\<close>

definition getitem :: "dataframe \<Rightarrow> string \<Rightarrow> error + column" where
  "getitem df name = (case map_of df name of None \<Rightarrow> Inl KeyError | Some c \<Rightarrow> Inr c)"

fun vals :: "column \<Rightarrow> val option list" where
  "vals (ObjCol xs) = map (map_option S) xs"
| "vals (NumCol xs) = map (map_option N) xs"

text \<open>A numeric reduction or test applied to a column of labels raises TypeError.\<close>

fun numeric :: "column \<Rightarrow> error + real option list" where
  "numeric (NumCol xs) = Inr xs"
| "numeric (ObjCol xs) = Inl TypeError"

text \<open>\<^verbatim>\<open>Series.dropna()\<close>.\<close>

definition dropna :: "'a option list \<Rightarrow> 'a list" where
  "dropna xs = List.map_filter id xs"

text \<open>\<^verbatim>\<open>Series.unique()\<close>: the distinct entries in order of first appearance.\<close>

definition unique :: "'a list \<Rightarrow> 'a list" where
  "unique xs = rev (remdups (rev xs))"

text \<open>Labels are ordered as pandas orders them within one column: strings by code
  point, numbers by value.\<close>

fun val_key :: "val \<Rightarrow> string \<times> real" where
  "val_key (S s) = (s, 0)"
| "val_key (N r) = ([], r)"

section \<open>The statistics library\<close>

text \<open>
  The tests of \<^verbatim>\<open>scipy.stats\<close> are not part of the repository. The distribution
  functions and the tests whose value no claim depends on are parameters of the model,
  each returning its (statistic, p-value) pair or raising.
\<close>

record scipy =
  chi2_sf :: "real \<Rightarrow> nat \<Rightarrow> fl"
  shapiro :: "real list \<Rightarrow> error + fl \<times> fl"
  levene :: "real list \<Rightarrow> real list \<Rightarrow> error + fl \<times> fl"
  ttest_ind :: "real list \<Rightarrow> real list \<Rightarrow> bool \<Rightarrow> error + fl \<times> fl"
  mannwhitneyu :: "real list \<Rightarrow> real list \<Rightarrow> error + fl \<times> fl"
  f_oneway :: "real list list \<Rightarrow> error + fl \<times> fl"
  norm_ppf :: "real \<Rightarrow> fl"
  pointbiserialr :: "fl list \<Rightarrow> fl list \<Rightarrow> error + fl \<times> fl"


text \<open>Python's formatting of floats (\<^verbatim>\<open>f"{p:.4f}"\<close>, \<^verbatim>\<open>str(x)\<close>) is a parameter as
  well; a label prints as itself.\<close>

record env = scipy +
  format_4f :: "fl \<Rightarrow> string"
  py_str :: "real \<Rightarrow> string"

fun val_str :: "'a env_scheme \<Rightarrow> val \<Rightarrow> string" where
  "val_str env (S s) = s"
| "val_str env (N r) = py_str env r"

section \<open>Association test\<close>

record crosstab_t =
  index :: "val list"
  columns :: "val list"
  counts :: "nat list list"

text \<open>\<^verbatim>\<open>pd.crosstab(a, b)\<close>: rows with a missing entry on either side are dropped;
  the labels are the observed values, ascending.\<close>

definition pairs_of :: "val option list \<Rightarrow> val option list \<Rightarrow> (val \<times> val) list" where
  "pairs_of a b =
     List.map_filter (\<lambda>(x, y). case x of None \<Rightarrow> None
                                | Some u \<Rightarrow> (case y of None \<Rightarrow> None | Some v \<Rightarrow> Some (u, v)))
       (zip a b)"

definition crosstab :: "val option list \<Rightarrow> val option list \<Rightarrow> crosstab_t" where
  "crosstab a b =
     (let ps = pairs_of a b;
          rs = sort_key val_key (remdups (map fst ps));
          cs = sort_key val_key (remdups (map snd ps))
      in \<lparr>index = rs, columns = cs,
          counts = map (\<lambda>r. map (\<lambda>c. count_list ps (r, c)) cs) rs\<rparr>)"

text \<open>\<^verbatim>\<open>contingency_table.shape\<close> and \<^verbatim>\<open>contingency_table.sum().sum()\<close>.\<close>

definition shape :: "crosstab_t \<Rightarrow> nat \<times> nat" where
  "shape t = (length (index t), length (columns t))"

definition grand_total :: "nat list list \<Rightarrow> nat" where
  "grand_total m = sum_list (map sum_list m)"

definition row_sums :: "nat list list \<Rightarrow> nat list" where
  "row_sums m = map sum_list m"

definition col_sums :: "nat \<Rightarrow> nat list list \<Rightarrow> nat list" where
  "col_sums c m = map (\<lambda>j. sum_list (map (\<lambda>row. row ! j) m)) [0..<c]"

text \<open>
  \<^verbatim>\<open>scipy.stats.chi2_contingency(observed)\<close> as the library documents it: a table of
  size 0 and a zero expected frequency raise ValueError; the expected frequencies are
  the products of the margins over the total; the degrees of freedom are
  \<open>(r - 1) * (c - 1)\<close>; with none, the statistic is 0 and the p-value 1; with exactly
  one, Yates' continuity correction moves each observed count towards its expected
  frequency by at most one half; the statistic is Pearson's sum and the p-value the
  survival function of the chi-square distribution.
\<close>

definition yates :: "real \<Rightarrow> real \<Rightarrow> real" where
  "yates obs ex = obs + min (1 / 2) \<bar>ex - obs\<bar> * sgn (ex - obs)"

definition pearson :: "real \<Rightarrow> real \<Rightarrow> real" where
  "pearson obs ex = (obs - ex)\<^sup>2 / ex"

definition expected_freq :: "nat \<Rightarrow> nat list list \<Rightarrow> real list list" where
  "expected_freq c m =
     map (\<lambda>ri. map (\<lambda>cj. real ri * real cj / real (grand_total m)) (col_sums c m)) (row_sums m)"

definition chi2_contingency ::
  "'a scipy_scheme \<Rightarrow> nat \<times> nat \<Rightarrow> nat list list \<Rightarrow> error + real \<times> fl \<times> nat \<times> real list list"
where
  "chi2_contingency env shp m =
     (let r = fst shp; c = snd shp in
      if r * c = 0 then Inl ValueError
      else
        let ex = expected_freq c m in
        if list_ex (\<lambda>e. e = 0) (concat ex) then Inl ValueError
        else
          let dof = (r - 1) * (c - 1) in
          if dof = 0 then Inr (0, Fin 1, dof, ex)
          else
            let obs = map (map real) m;
                obs' = (if dof = 1 then map2 (map2 yates) obs ex else obs);
                chi2 = sum_list (map2 pearson (concat obs') (concat ex))
            in Inr (chi2, chi2_sf env chi2 dof, dof, ex))"

record test_result =
  p_value :: fl
  is_significant :: bool
  effect_size :: string
  interpretation_str :: string

record chi_result = test_result +
  chi2_statistic :: real
  degrees_of_freedom :: nat
  cramers_v :: fl
  contingency_table :: crosstab_t

definition interpret_cramers_v :: "fl \<Rightarrow> string" where
  "interpret_cramers_v v =
     (if flt v (Fin 0.1) then ''Efecto despreciable''
      else if flt v (Fin 0.3) then ''Efecto peque'' @ [CHR 0xF1] @ ''o''
      else if flt v (Fin 0.5) then ''Efecto mediano''
      else ''Efecto grande'')"

definition perform_chi_square_test ::
  "'a env_scheme \<Rightarrow> dataframe \<Rightarrow> string \<Rightarrow> string \<Rightarrow> error + chi_result"
where
  "perform_chi_square_test env df var1 var2 =
     ebind (getitem df var1) (\<lambda>c1.
     ebind (getitem df var2) (\<lambda>c2.
     let tab = crosstab (vals c1) (vals c2) in
     ebind (chi2_contingency env (shape tab) (counts tab)) (\<lambda>(chi2, pv, dof, ex).
     let n = grand_total (counts tab);
         min_dim = int (min (fst (shape tab)) (snd (shape tab))) - 1;
         v = (if min_dim > 0
              then np_sqrt (Fin (chi2 / (real n * real_of_int min_dim)))
              else Fin 0);
         alpha = Fin 0.05;
         sig = flt pv alpha
     in Inr \<lparr>p_value = pv,
             is_significant = sig,
             effect_size = interpret_cramers_v v,
             interpretation_str =
               (if sig then ''Existe'' else ''No existe'')
               @ '' asociaci'' @ [CHR 0xF3] @ ''n significativa entre '' @ var1
               @ '' y '' @ var2 @ '' (p='' @ format_4f env pv @ '')'',
             chi2_statistic = chi2,
             degrees_of_freedom = dof,
             cramers_v = v,
             contingency_table = tab\<rparr>)))"

section \<open>Group-difference test\<close>

text \<open>The reductions of a pandas Series without missing entries: \<^verbatim>\<open>mean()\<close>,
  \<^verbatim>\<open>std()\<close> (sample standard deviation, one degree of freedom removed) and
  \<^verbatim>\<open>median()\<close>. Each is NaN where the sample is too small.\<close>

definition series_mean :: "real list \<Rightarrow> fl" where
  "series_mean xs = (if xs = [] then NaN else Fin (sum_list xs / real (length xs)))"

definition variance :: "real list \<Rightarrow> real" where
  "variance xs =
     (let m = sum_list xs / real (length xs)
      in sum_list (map (\<lambda>x. (x - m)\<^sup>2) xs) / real (length xs - 1))"

definition series_std :: "real list \<Rightarrow> fl" where
  "series_std xs = (if length xs < 2 then NaN else Fin (sqrt (variance xs)))"

definition series_median :: "real list \<Rightarrow> fl" where
  "series_median xs =
     (let ys = sort xs; n = length ys in
      if n = 0 then NaN
      else if odd n then Fin (ys ! (n div 2))
      else Fin ((ys ! (n div 2 - 1) + ys ! (n div 2)) / 2))"

text \<open>\<^verbatim>\<open>df[df[group_var] == group][numeric_var]\<close>: the entries of one column on the rows
  where another holds a given label. A missing label equals nothing.\<close>

definition select_rows :: "val option list \<Rightarrow> val \<Rightarrow> 'a list \<Rightarrow> 'a list" where
  "select_rows g k xs = map snd (filter (\<lambda>(gv, x). gv = Some k) (zip g xs))"

text \<open>Truth value of a float: only zero is false.\<close>

definition truthy :: "fl \<Rightarrow> bool" where
  "truthy p = (p \<noteq> Fin 0)"

definition interpret_cohens_d :: "fl \<Rightarrow> string" where
  "interpret_cohens_d d =
     (if flt d (Fin 0.2) then ''Efecto despreciable''
      else if flt d (Fin 0.5) then ''Efecto peque'' @ [CHR 0xF1] @ ''o''
      else if flt d (Fin 0.8) then ''Efecto mediano''
      else ''Efecto grande'')"

record t_result = test_result +
  test_type :: string
  statistic :: fl
  mean_group1 :: fl
  mean_group2 :: fl
  std_group1 :: fl
  std_group2 :: fl
  cohens_d :: fl
  n_group1 :: nat
  n_group2 :: nat

text \<open>The p-value of the normality check: \<^verbatim>\<open>stats.shapiro(data)\<close> below 5000
  observations, the constant 1 from there on.\<close>

definition normality_p :: "'a scipy_scheme \<Rightarrow> real list \<Rightarrow> error + fl" where
  "normality_p env xs =
     (if length xs < 5000 then ebind (shapiro env xs) (\<lambda>(w, p). Inr p) else Inr (Fin 1))"

text \<open>The choice of the test, from the three p-values.\<close>

definition choose_test ::
  "'a scipy_scheme \<Rightarrow> real list \<Rightarrow> real list \<Rightarrow> fl \<Rightarrow> fl \<Rightarrow> fl \<Rightarrow> error + fl \<times> fl \<times> string"
where
  "choose_test env data1 data2 p_norm1 p_norm2 p_levene =
     (if truthy p_norm1 \<and> truthy p_norm2 \<and> fgt p_norm1 (Fin 0.05) \<and> fgt p_norm2 (Fin 0.05)
      then
        if fgt p_levene (Fin 0.05)
        then ebind (ttest_ind env data1 data2 True)
               (\<lambda>(t, p). Inr (t, p, ''T-test (varianzas iguales)''))
        else ebind (ttest_ind env data1 data2 False)
               (\<lambda>(t, p). Inr (t, p, ''T-test de Welch (varianzas diferentes)''))
      else ebind (mannwhitneyu env data1 data2)
             (\<lambda>(u, p). Inr (u, p, ''Mann-Whitney U'')))"

text \<open>\<^verbatim>\<open>df[df[group_var] == group][numeric_var].dropna()\<close>.\<close>

definition group_sample :: "dataframe \<Rightarrow> string \<Rightarrow> string \<Rightarrow> val \<Rightarrow> error + real list" where
  "group_sample df numeric_var group_var label =
     ebind (getitem df group_var) (\<lambda>g.
     ebind (getitem df numeric_var) (\<lambda>c.
     ebind (numeric c) (\<lambda>xs. Inr (dropna (select_rows (vals g) label xs)))))"

definition perform_t_test ::
  "'a env_scheme \<Rightarrow> dataframe \<Rightarrow> string \<Rightarrow> string \<Rightarrow> val \<Rightarrow> val \<Rightarrow> error + t_result"
where
  "perform_t_test env df numeric_var group_var group1 group2 =
     ebind (group_sample df numeric_var group_var group1) (\<lambda>data1.
     ebind (group_sample df numeric_var group_var group2) (\<lambda>data2.
     ebind (normality_p env data1) (\<lambda>p_norm1.
     ebind (normality_p env data2) (\<lambda>p_norm2.
     ebind (levene env data1 data2) (\<lambda>(w, p_levene).
     ebind (choose_test env data1 data2 p_norm1 p_norm2 p_levene) (\<lambda>(t_stat, pv, ttype).
     let mean1 = series_mean data1; mean2 = series_mean data2;
         std1 = series_std data1; std2 = series_std data2;
         pooled_std = np_sqrt (fdiv (fadd (fmul std1 std1) (fmul std2 std2)) (Fin 2));
         d = (if fgt pooled_std (Fin 0) then fdiv (fsub mean1 mean2) pooled_std else Fin 0);
         alpha = Fin 0.05;
         sig = flt pv alpha
     in Inr \<lparr>p_value = pv,
             is_significant = sig,
             effect_size = interpret_cohens_d (fabs d),
             interpretation_str =
               (if sig then ''Existe'' else ''No existe'')
               @ '' diferencia significativa entre '' @ val_str env group1
               @ '' y '' @ val_str env group2 @ '' (p='' @ format_4f env pv @ '')'',
             test_type = ttype,
             statistic = t_stat,
             mean_group1 = mean1,
             mean_group2 = mean2,
             std_group1 = std1,
             std_group2 = std2,
             cohens_d = d,
             n_group1 = length data1,
             n_group2 = length data2\<rparr>))))))"

section \<open>Multi-group test\<close>

text \<open>\<^verbatim>\<open>df.groupby(group_var)[numeric_var]\<close>: one sample per observed label, the
  labels ascending; rows with a missing label belong to no group.\<close>

definition group_keys :: "val option list \<Rightarrow> val list" where
  "group_keys g = sort_key val_key (remdups (dropna g))"

definition groupby :: "val option list \<Rightarrow> 'a list \<Rightarrow> (val \<times> 'a list) list" where
  "groupby g xs = map (\<lambda>k. (k, select_rows g k xs)) (group_keys g)"

text \<open>Python's \<^verbatim>\<open>sum\<close> of a list of floats, from the integer 0.\<close>

definition fsum :: "fl list \<Rightarrow> fl" where
  "fsum xs = foldl fadd (Fin 0) xs"

definition interpret_eta_squared :: "fl \<Rightarrow> string" where
  "interpret_eta_squared eta2 =
     (if flt eta2 (Fin 0.01) then ''Efecto despreciable''
      else if flt eta2 (Fin 0.06) then ''Efecto peque'' @ [CHR 0xF1] @ ''o''
      else if flt eta2 (Fin 0.14) then ''Efecto mediano''
      else ''Efecto grande'')"

text \<open>A row of the table of per-group statistics (its columns \<^verbatim>\<open>group\<close>, \<^verbatim>\<open>n\<close>,
  \<^verbatim>\<open>mean\<close>, \<^verbatim>\<open>std\<close>, \<^verbatim>\<open>median\<close>).\<close>

record group_stat =
  grp :: val
  grp_n :: nat
  grp_mean :: fl
  grp_std :: fl
  grp_median :: fl

record anova_result = test_result +
  f_statistic :: fl
  eta_squared :: fl
  group_stats :: "group_stat list"
  n_groups :: nat

definition perform_anova ::
  "'a env_scheme \<Rightarrow> dataframe \<Rightarrow> string \<Rightarrow> string \<Rightarrow> error + anova_result"
where
  "perform_anova env df numeric_var group_var =
     ebind (getitem df group_var) (\<lambda>g.
     ebind (getitem df numeric_var) (\<lambda>c.
     ebind (numeric c) (\<lambda>xs.
     let named = groupby (vals g) xs;
         groups = map (\<lambda>(name, sample). dropna sample) named;
         group_names = map fst named in
     ebind (f_oneway env groups) (\<lambda>(f_stat, pv).
     let grand_mean = series_mean (dropna xs);
         ss_between = fsum (map (\<lambda>sample. fmul (Fin (real (length sample)))
                                     (let dev = fsub (series_mean sample) grand_mean
                                      in fmul dev dev)) groups);
         ss_total = fsum (map (\<lambda>x. let dev = fsub (Fin x) grand_mean in fmul dev dev)
                            (concat groups));
         eta = (if fgt ss_total (Fin 0) then fdiv ss_between ss_total else Fin 0);
         alpha = Fin 0.05;
         sig = flt pv alpha
     in Inr \<lparr>p_value = pv,
             is_significant = sig,
             effect_size = interpret_eta_squared eta,
             interpretation_str =
               (if sig then ''Existe'' else ''No existe'')
               @ '' diferencia significativa entre grupos (p='' @ format_4f env pv @ '')'',
             f_statistic = f_stat,
             eta_squared = eta,
             group_stats =
               map2 (\<lambda>name sample. \<lparr>grp = name, grp_n = length sample,
                                    grp_mean = series_mean sample,
                                    grp_std = series_std sample,
                                    grp_median = series_median sample\<rparr>)
                 group_names groups,
             n_groups = length groups\<rparr>))))"

section \<open>Proportion confidence interval\<close>

text \<open>The counts arrive as Python integers or, from a row of a frame, as floats.\<close>

definition calculate_proportion_ci ::
  "'a scipy_scheme \<Rightarrow> fl \<Rightarrow> fl \<Rightarrow> real \<Rightarrow> fl \<times> fl"
where
  "calculate_proportion_ci env successes total_n confidence =
     (if total_n = Fin 0 then (Fin 0, Fin 0)
      else
        let p = fdiv successes total_n;
            z = norm_ppf env (1 - (1 - confidence) / 2);
            se = np_sqrt (fdiv (fmul p (fsub (Fin 1) p)) total_n);
            ci_lower = py_max (Fin 0) (fsub p (fmul z se));
            ci_upper = py_min (Fin 1) (fadd p (fmul z se))
        in (ci_lower, ci_upper))"

section \<open>Grouped cancellation metrics\<close>

text \<open>The frame of metrics: one row per group, the group labels as its index, and
  named columns of floats.\<close>

record mframe =
  mindex :: "val list list"
  mcols :: "(string \<times> fl list) list"

definition mcol :: "mframe \<Rightarrow> string \<Rightarrow> fl list" where
  "mcol t name = (case map_of (mcols t) name of Some xs \<Rightarrow> xs | None \<Rightarrow> [])"

text \<open>\<^verbatim>\<open>metrics[name] = xs\<close> replaces the column of that name or adds it last.\<close>

definition setitem :: "mframe \<Rightarrow> string \<Rightarrow> fl list \<Rightarrow> mframe" where
  "setitem t name xs =
     (if name \<in> set (map fst (mcols t))
      then t\<lparr>mcols := map (\<lambda>(k, v). if k = name then (k, xs) else (k, v)) (mcols t)\<rparr>
      else t\<lparr>mcols := mcols t @ [(name, xs)]\<rparr>)"

text \<open>\<^verbatim>\<open>metrics.columns = names\<close>.\<close>

definition set_columns :: "mframe \<Rightarrow> string list \<Rightarrow> mframe" where
  "set_columns t names = t\<lparr>mcols := zip names (map snd (mcols t))\<rparr>"

definition series_sum :: "real option list \<Rightarrow> real" where
  "series_sum xs = sum_list (dropna xs)"

text \<open>The key of a row under several grouping columns; a row with a missing label
  in any of them has none.\<close>

definition row_key :: "val option list list \<Rightarrow> nat \<Rightarrow> val list option" where
  "row_key gs i =
     (let ks = map (\<lambda>g. g ! i) gs in if None \<in> set ks then None else Some (map the ks))"

definition select_keyed :: "val list option list \<Rightarrow> val list \<Rightarrow> 'a list \<Rightarrow> 'a list" where
  "select_keyed ks k xs = map snd (filter (\<lambda>(kv, x). kv = Some k) (zip ks xs))"

text \<open>\<^verbatim>\<open>df.groupby(group_vars).agg({'is_canceled': ['sum', 'mean', 'count']})\<close>.
  Grouping by no column at all raises ValueError.\<close>

definition aggregate :: "dataframe \<Rightarrow> string list \<Rightarrow> error + mframe" where
  "aggregate df group_vars =
     (if group_vars = [] then Inl ValueError
      else
        ebind (fold (\<lambda>name acc. ebind acc (\<lambda>gs. ebind (getitem df name) (\<lambda>c. Inr (gs @ [vals c]))))
                 group_vars (Inr [])) (\<lambda>gs.
        ebind (getitem df ''is_canceled'') (\<lambda>c.
        ebind (numeric c) (\<lambda>xs.
        let ks = map (row_key gs) [0..<length xs];
            labels = sort_key (map val_key) (remdups (dropna ks));
            samples = map (\<lambda>k. select_keyed ks k xs) labels
        in Inr \<lparr>mindex = labels,
                mcols = [(''sum'', map (\<lambda>g. Fin (series_sum g)) samples),
                         (''mean'', map (\<lambda>g. series_mean (dropna g)) samples),
                         (''count'', map (\<lambda>g. Fin (real (length (dropna g)))) samples)]\<rparr>))))"

text \<open>\<^verbatim>\<open>sort_values(by, ascending=False)\<close>: the rows in descending order of a column,
  those where it is NaN last. (The order among equal entries is the sorting
  algorithm's; a stable one stands for it.)\<close>

fun the_fin :: "fl \<Rightarrow> real" where
  "the_fin (Fin a) = a"
| "the_fin NaN = 0"

definition sort_desc :: "('a \<Rightarrow> fl) \<Rightarrow> 'a list \<Rightarrow> 'a list" where
  "sort_desc key rows =
     sort_key (\<lambda>r. - the_fin (key r)) (filter (\<lambda>r. key r \<noteq> NaN) rows)
     @ filter (\<lambda>r. key r = NaN) rows"

definition sort_values :: "mframe \<Rightarrow> string \<Rightarrow> mframe" where
  "sort_values t by =
     (let order = map snd (sort_desc fst (zip (mcol t by) [0..<length (mindex t)]))
      in \<lparr>mindex = map (\<lambda>i. mindex t ! i) order,
          mcols = map (\<lambda>(name, xs). (name, map (\<lambda>i. xs ! i) order)) (mcols t)\<rparr>)"

section \<open>Feature importance ranking\<close>








section \<open>Business metrics snapshot\<close>

definition nrows :: "dataframe \<Rightarrow> nat" where
  "nrows df = (case df of [] \<Rightarrow> 0 | (name, c) # rest \<Rightarrow> length (vals c))"

definition has_column :: "dataframe \<Rightarrow> string \<Rightarrow> bool" where
  "has_column df name = (map_of df name \<noteq> None)"

text \<open>\<^verbatim>\<open>df[mask][name]\<close>: the entries on the rows where the mask holds.\<close>

definition where_rows :: "bool list \<Rightarrow> 'a list \<Rightarrow> 'a list" where
  "where_rows keep xs = map snd (filter fst (zip keep xs))"

text \<open>\<^verbatim>\<open>s[s > 0].mean()\<close>; a missing entry is not greater than 0.\<close>

definition positive_mean :: "real option list \<Rightarrow> fl" where
  "positive_mean xs =
     series_mean (dropna (where_rows (map (\<lambda>x. case x of Some v \<Rightarrow> v > 0 | None \<Rightarrow> False) xs) xs))"

text \<open>The product of two columns is missing where either factor is.\<close>

definition mul_opt :: "real option \<Rightarrow> real option \<Rightarrow> real option" where
  "mul_opt x y = (case x of None \<Rightarrow> None | Some a \<Rightarrow> (case y of None \<Rightarrow> None | Some b \<Rightarrow> Some (a * b)))"

text \<open>The text of a hotel type inside a key; a missing one prints as \<^verbatim>\<open>nan\<close>.\<close>

definition hotel_str :: "'a env_scheme \<Rightarrow> val option \<Rightarrow> string" where
  "hotel_str env h = (case h of Some v \<Rightarrow> val_str env v | None \<Rightarrow> ''nan'')"

text \<open>An optional numeric column: \<^verbatim>\<open>df[name] if name in df.columns\<close>.\<close>

definition optional_numeric :: "dataframe \<Rightarrow> string \<Rightarrow> error + real option list option" where
  "optional_numeric df name =
     (if has_column df name
      then ebind (getitem df name) (\<lambda>c. ebind (numeric c) (\<lambda>xs. Inr (Some xs)))
      else Inr None)"

definition calculate_business_metrics ::
  "'a env_scheme \<Rightarrow> dataframe \<Rightarrow> error + (string \<rightharpoonup> fl)"
where
  "calculate_business_metrics env df =
     ebind (getitem df ''is_canceled'') (\<lambda>c1.
     ebind (numeric c1) (\<lambda>canceled.
     ebind (getitem df ''lead_time'') (\<lambda>c2.
     ebind (numeric c2) (\<lambda>lead_time.
     ebind (optional_numeric df ''adr'') (\<lambda>adr.
     ebind (getitem df ''hotel'') (\<lambda>hotel.
     ebind (optional_numeric df ''total_stay_nights'') (\<lambda>nights.
     let m1 = [''total_bookings'' \<mapsto> Fin (real (nrows df)),
               ''cancellation_rate'' \<mapsto> series_mean (dropna canceled),
               ''avg_lead_time'' \<mapsto> series_mean (dropna lead_time),
               ''avg_adr'' \<mapsto> (case adr of Some a \<Rightarrow> positive_mean a | None \<Rightarrow> Fin 0)];
         m2 = foldl (\<lambda>m hotel_type.
                 let rows = map (\<lambda>v. hotel_type \<noteq> None \<and> v = hotel_type) (vals hotel)
                 in m(hotel_str env hotel_type @ ''_cancellation_rate''
                        \<mapsto> series_mean (dropna (where_rows rows canceled)),
                      hotel_str env hotel_type @ ''_avg_adr''
                        \<mapsto> (case adr of Some a \<Rightarrow> positive_mean (where_rows rows a)
                                       | None \<Rightarrow> Fin 0)))
                m1 (unique (vals hotel));
         is_canceled_1 = map (\<lambda>x. x = Some 1) canceled;
         m3 = (case adr of
                 None \<Rightarrow> m2
               | Some a \<Rightarrow>
                   (case nights of
                      None \<Rightarrow> m2
                    | Some ns \<Rightarrow>
                        m2(''potential_revenue_loss''
                             \<mapsto> Fin (series_sum (map2 mul_opt (where_rows is_canceled_1 a)
                                                      (where_rows is_canceled_1 ns))))));
         total_room_nights = (case nights of Some ns \<Rightarrow> series_sum ns | None \<Rightarrow> 0);
         canceled_room_nights =
           (case nights of Some ns \<Rightarrow> series_sum (where_rows is_canceled_1 ns) | None \<Rightarrow> 0)
     in Inr (m3(''estimated_occupancy_rate''
                  \<mapsto> (if total_room_nights > 0
                       then Fin ((total_room_nights - canceled_room_nights) / total_room_nights)
                       else Fin 0))))))))))"

section \<open>Sample inputs\<close>

text \<open>
  A stand-in for the library, for running the engine on sample datasets: it raises
  where the library raises on a degenerate sample (fewer than three observations for
  the normality test, fewer than two groups for the analysis of variance), answers NaN
  for an analysis of variance with an empty group, and a fixed pair elsewhere.
\<close>

definition env0 :: env where
  "env0 = \<lparr>chi2_sf = (\<lambda>x k. Fin (1 / (1 + x))),
           shapiro = (\<lambda>xs. if length xs < 3 then Inl ValueError else Inr (Fin 1, Fin 1)),
           levene = (\<lambda>xs ys. Inr (Fin 0, Fin 1)),
           ttest_ind = (\<lambda>xs ys eq. Inr (Fin 0, Fin 1)),
           mannwhitneyu = (\<lambda>xs ys. Inr (Fin 0, Fin 1)),
           f_oneway = (\<lambda>gs. if length gs < 2 then Inl TypeError
                              else if [] \<in> set gs then Inr (NaN, NaN)
                              else Inr (Fin 0, Fin 1)),
           norm_ppf = (\<lambda>q. Fin (49 / 25)),
           pointbiserialr = (\<lambda>xs ys. Inr (Fin (- 1 / 2), Fin 1)),
           format_4f = (\<lambda>p. ''''),
           py_str = (\<lambda>r. '''')\<rparr>"

text \<open>Eight bookings: two labels against two labels with the table [[3, 1], [1, 3]],
  a 0/1 outcome, and a numeric column with a missing entry.\<close>

definition df_assoc :: dataframe where
  "df_assoc =
     [(''u'', ObjCol [Some ''A'', Some ''A'', Some ''A'', Some ''A'',
                      Some ''B'', Some ''B'', Some ''B'', Some ''B'']),
      (''v'', ObjCol [Some ''X'', Some ''X'', Some ''X'', Some ''Y'',
                      Some ''X'', Some ''Y'', Some ''Y'', Some ''Y'']),
      (''y'', NumCol [Some 1, Some 1, Some 1, Some 0, Some 1, Some 0, Some 0, Some 0]),
      (''z'', NumCol [Some 4, None, Some 2, Some 7, Some 1, Some 3, Some 5, Some 6])]"

text \<open>Two groups of three observations, means 2 and 5, standard deviations 1.\<close>

definition df_groups :: dataframe where
  "df_groups =
     [(''g'', ObjCol [Some ''a'', Some ''a'', Some ''a'', Some ''b'', Some ''b'', Some ''b'']),
      (''x'', NumCol [Some 1, Some 2, Some 3, Some 4, Some 5, Some 6])]"

text \<open>Two constant groups, 1 and 2.\<close>

definition df_const :: dataframe where
  "df_const =
     [(''g'', ObjCol [Some ''a'', Some ''a'', Some ''a'', Some ''b'', Some ''b'', Some ''b'']),
      (''x'', NumCol [Some 1, Some 1, Some 1, Some 2, Some 2, Some 2])]"

text \<open>A group whose only observation is missing.\<close>

definition df_gap :: dataframe where
  "df_gap =
     [(''g'', ObjCol [Some ''a'', Some ''a'', Some ''b'']),
      (''x'', NumCol [Some 1, Some 3, None])]"

text \<open>One label on one side: a table of one row.\<close>

definition df_single :: dataframe where
  "df_single =
     [(''u'', ObjCol [Some ''A'', Some ''A'', Some ''A'']),
      (''v'', ObjCol [Some ''X'', Some ''Y'', Some ''Y''])]"

section \<open>The specification's wording\<close>

text \<open>The decision procedure of the group-difference test as the specification words
  it: a p-value passes a check when it exceeds 0.05; with both samples normal the
  variance check chooses between the two t-tests; otherwise the rank test is used.\<close>

datatype test_choice = EqualVariance | Welch | MannWhitney

definition passes :: "fl \<Rightarrow> bool" where
  "passes p = fgt p (Fin 0.05)"

definition spec_choice :: "bool \<Rightarrow> bool \<Rightarrow> bool \<Rightarrow> test_choice" where
  "spec_choice normal1 normal2 equal_variances =
     (if normal1 \<and> normal2 \<and> equal_variances then EqualVariance
      else if normal1 \<and> normal2 \<and> \<not> equal_variances then Welch
      else MannWhitney)"





definition spec_ss_total :: "real \<Rightarrow> real list list \<Rightarrow> real" where
  "spec_ss_total gm groups =
     sum_list (map (\<lambda>g. sum_list (map (\<lambda>x. (x - gm)\<^sup>2) g)) groups)"

text \<open>The room-nights as the specification words them: the nights of all bookings, and
  those of the canceled bookings (outcome 1); a missing entry counts for nothing.\<close>

definition nights_of :: "real option \<Rightarrow> real" where
  "nights_of x = (case x of Some v \<Rightarrow> v | None \<Rightarrow> 0)"

definition spec_total_nights :: "real option list \<Rightarrow> real" where
  "spec_total_nights ns = sum_list (map nights_of ns)"

definition spec_canceled_nights :: "real option list \<Rightarrow> real option list \<Rightarrow> real" where
  "spec_canceled_nights cs ns =
     sum_list (map (\<lambda>(c, x). if c = Some 1 then nights_of x else 0) (zip cs ns))"

text \<open>Four bookings, two of them canceled, of 1, 2, 3 and 4 nights.\<close>

definition df_hotel :: dataframe where
  "df_hotel =
     [(''hotel'', ObjCol [Some ''City'', Some ''City'', Some ''Resort'', None]),
      (''is_canceled'', NumCol [Some 1, Some 0, Some 1, Some 0]),
      (''lead_time'', NumCol [Some 10, Some 20, None, Some 30]),
      (''adr'', NumCol [Some 100, Some 0, Some 50, Some 80]),
      (''total_stay_nights'', NumCol [Some 1, Some 2, Some 3, Some 4])]"



section \<open>Basic facts\<close>

lemma ebind_Inr: "ebind m f = Inr r \<longleftrightarrow> (\<exists>x. m = Inr x \<and> f x = Inr r)"
  by (cases m) (simp_all add: ebind_def)

lemmas frame_eval = getitem_def ebind_def List.map_filter_def dropna_def select_rows_def
  Let_def power2_eq_square

lemmas chi_eval = perform_chi_square_test_def crosstab_def pairs_of_def
  chi2_contingency_def shape_def expected_freq_def grand_total_def
  row_sums_def col_sums_def yates_def pearson_def interpret_cramers_v_def upt_rec

lemmas t_eval = perform_t_test_def group_sample_def normality_p_def choose_test_def truthy_def
  series_mean_def series_std_def variance_def interpret_cohens_d_def

lemmas anova_eval = perform_anova_def groupby_def group_keys_def fsum_def series_mean_def
  series_std_def series_median_def variance_def interpret_eta_squared_def

lemma sqrt_sixteenth: "sqrt (1 / 16) = 1 / 4"
  by (rule real_sqrt_unique) (simp_all add: power2_eq_square)

text \<open>The three tests on the sample datasets.\<close>

lemma chi_assoc:
  "\<exists>r. perform_chi_square_test env0 df_assoc ''u'' ''v'' = Inr r \<and> chi2_statistic r = 1 / 2
     \<and> cramers_v r = Fin (1 / 4) \<and> p_value r = Fin (2 / 3) \<and> degrees_of_freedom r = 1
     \<and> effect_size r = ''Efecto peque'' @ [CHR 0xF1] @ ''o''"
  by (simp add: frame_eval chi_eval env0_def df_assoc_def sqrt_sixteenth)

lemma t_groups:
  "\<exists>r. perform_t_test env0 df_groups ''x'' ''g'' (S ''a'') (S ''b'') = Inr r
     \<and> test_type r = ''T-test (varianzas iguales)'' \<and> statistic r = Fin 0 \<and> p_value r = Fin 1
     \<and> mean_group1 r = Fin 2 \<and> mean_group2 r = Fin 5 \<and> cohens_d r = Fin (- 3)
     \<and> effect_size r = ''Efecto grande''"
  by (simp add: frame_eval t_eval env0_def df_groups_def)

lemma anova_groups:
  "\<exists>r. perform_anova env0 df_groups ''x'' ''g'' = Inr r \<and> eta_squared r = Fin (27 / 35)
     \<and> p_value r = Fin 1 \<and> n_groups r = 2"
  by (simp add: frame_eval anova_eval env0_def df_groups_def)

section \<open>The significance flag\<close>

text \<open>
  C1. Whenever one of the three tests returns a result, its significance flag is
  exactly the comparison of the returned p-value with the fixed threshold 0.05 (false
  on a NaN p-value, as the comparison is).
\<close>

theorem significance_flag:
  "(perform_chi_square_test env df var1 var2 = Inr r1
      \<longrightarrow> is_significant r1 = flt (p_value r1) (Fin 0.05))
   \<and> (perform_t_test env df numeric_var group_var group1 group2 = Inr r2
      \<longrightarrow> is_significant r2 = flt (p_value r2) (Fin 0.05))
   \<and> (perform_anova env df numeric_var group_var = Inr r3
      \<longrightarrow> is_significant r3 = flt (p_value r3) (Fin 0.05))"
proof (intro conjI impI)
  assume "perform_chi_square_test env df var1 var2 = Inr r1"
  then show "is_significant r1 = flt (p_value r1) (Fin 0.05)"
    by (auto simp: perform_chi_square_test_def ebind_Inr Let_def split: prod.splits)
next
  assume "perform_t_test env df numeric_var group_var group1 group2 = Inr r2"
  then show "is_significant r2 = flt (p_value r2) (Fin 0.05)"
    by (auto simp: perform_t_test_def ebind_Inr Let_def split: prod.splits)
next
  assume "perform_anova env df numeric_var group_var = Inr r3"
  then show "is_significant r3 = flt (p_value r3) (Fin 0.05)"
    by (auto simp: perform_anova_def ebind_Inr Let_def split: prod.splits)
qed

theorem significance_flag_witness:
  "(\<exists>r. perform_chi_square_test env0 df_assoc ''u'' ''v'' = Inr r
        \<and> p_value r = Fin (2 / 3) \<and> is_significant r = flt (p_value r) (Fin 0.05))
   \<and> (\<exists>r. perform_t_test env0 df_groups ''x'' ''g'' (S ''a'') (S ''b'') = Inr r
        \<and> p_value r = Fin 1 \<and> is_significant r = flt (p_value r) (Fin 0.05))
   \<and> (\<exists>r. perform_anova env0 df_groups ''x'' ''g'' = Inr r
        \<and> p_value r = Fin 1 \<and> is_significant r = flt (p_value r) (Fin 0.05))"
proof -
  obtain r1 where r1: "perform_chi_square_test env0 df_assoc ''u'' ''v'' = Inr r1"
    "p_value r1 = Fin (2 / 3)"
    using chi_assoc by blast
  obtain r2 where r2: "perform_t_test env0 df_groups ''x'' ''g'' (S ''a'') (S ''b'') = Inr r2"
    "p_value r2 = Fin 1"
    using t_groups by blast
  obtain r3 where r3: "perform_anova env0 df_groups ''x'' ''g'' = Inr r3" "p_value r3 = Fin 1"
    using anova_groups by blast
  from significance_flag [of env0 df_assoc "''u''" "''v''" r1 "''x''" "''g''" "S ''a''" "S ''b''" r2 r3]
    r1 have "is_significant r1 = flt (p_value r1) (Fin 0.05)" by blast
  moreover
  from significance_flag [of env0 df_groups "''u''" "''v''" r1 "''x''" "''g''" "S ''a''" "S ''b''" r2 r3]
    r2 r3 have "is_significant r2 = flt (p_value r2) (Fin 0.05)"
    "is_significant r3 = flt (p_value r3) (Fin 0.05)" by blast+
  ultimately show ?thesis using r1 r2 r3 by blast
qed

section \<open>The choice of the group-difference test\<close>

lemma normality_p_cases:
  assumes "normality_p env xs = Inr p"
  shows "(5000 \<le> length xs \<longrightarrow> p = Fin 1 \<and> passes p)
       \<and> (length xs < 5000 \<longrightarrow> (\<exists>w. shapiro env xs = Inr (w, p)))"
  using assms by (auto simp: normality_p_def ebind_Inr passes_def split: if_splits)

lemma truthy_passes: "truthy p \<and> fgt p (Fin 0.05) \<longleftrightarrow> passes p"
  by (cases p) (auto simp: truthy_def passes_def)

lemma choose_test_spec:
  assumes "choose_test env d1 d2 p1 p2 pl = Inr (t, p, ty)"
  shows "case spec_choice (passes p1) (passes p2) (passes pl) of
        EqualVariance \<Rightarrow> ty = ''T-test (varianzas iguales)''
                           \<and> ttest_ind env d1 d2 True = Inr (t, p)
      | Welch \<Rightarrow> ty = ''T-test de Welch (varianzas diferentes)''
                           \<and> ttest_ind env d1 d2 False = Inr (t, p)
      | MannWhitney \<Rightarrow> ty = ''Mann-Whitney U''
                           \<and> mannwhitneyu env d1 d2 = Inr (t, p)"
proof -
  have n: "(truthy p1 \<and> truthy p2 \<and> fgt p1 (Fin 0.05) \<and> fgt p2 (Fin 0.05)) = (passes p1 \<and> passes p2)"
    using truthy_passes[of p1] truthy_passes[of p2] by blast
  show ?thesis
    using assms unfolding choose_test_def n spec_choice_def
    by (auto simp: ebind_Inr passes_def split: if_splits)
qed

text \<open>
  C2. A result of the group-difference test comes from this decision procedure: each
  group's normality p-value is that of the normality test below 5000 observations, and
  is taken as 1 (the group passes) from 5000 on; the variance check is run; the three
  p-values choose among the equal-variance t-test, Welch's variant and the Mann-Whitney
  rank test as the specification words it, and the returned statistic and p-value are
  those of the chosen test.
\<close>

theorem t_test_decision:
  assumes "perform_t_test env df numeric_var group_var group1 group2 = Inr r"
  shows "\<exists>data1 data2 p1 p2 w pl.
     group_sample df numeric_var group_var group1 = Inr data1 \<and>
     group_sample df numeric_var group_var group2 = Inr data2 \<and>
     (5000 \<le> length data1 \<longrightarrow> p1 = Fin 1 \<and> passes p1) \<and>
     (length data1 < 5000 \<longrightarrow> (\<exists>w1. shapiro env data1 = Inr (w1, p1))) \<and>
     (5000 \<le> length data2 \<longrightarrow> p2 = Fin 1 \<and> passes p2) \<and>
     (length data2 < 5000 \<longrightarrow> (\<exists>w2. shapiro env data2 = Inr (w2, p2))) \<and>
     levene env data1 data2 = Inr (w, pl) \<and>
     (case spec_choice (passes p1) (passes p2) (passes pl) of
        EqualVariance \<Rightarrow> test_type r = ''T-test (varianzas iguales)''
                           \<and> ttest_ind env data1 data2 True = Inr (statistic r, p_value r)
      | Welch \<Rightarrow> test_type r = ''T-test de Welch (varianzas diferentes)''
                           \<and> ttest_ind env data1 data2 False = Inr (statistic r, p_value r)
      | MannWhitney \<Rightarrow> test_type r = ''Mann-Whitney U''
                           \<and> mannwhitneyu env data1 data2 = Inr (statistic r, p_value r))"
proof -
  from assms obtain data1 data2 p1 p2 lv c where
    d1: "group_sample df numeric_var group_var group1 = Inr data1" and
    d2: "group_sample df numeric_var group_var group2 = Inr data2" and
    n1: "normality_p env data1 = Inr p1" and
    n2: "normality_p env data2 = Inr p2" and
    lv0: "levene env data1 data2 = Inr lv" and
    ch0: "choose_test env data1 data2 p1 p2 (snd lv) = Inr c" and
    r: "test_type r = snd (snd c)" "statistic r = fst c" "p_value r = fst (snd c)"
    by (auto simp: perform_t_test_def ebind_Inr Let_def split_beta)
  obtain w pl where lvp: "lv = (w, pl)" by (cases lv)
  obtain t p ty where cp: "c = (t, p, ty)" by (cases c)
  from lv0 lvp have lv: "levene env data1 data2 = Inr (w, pl)" by simp
  from ch0 lvp cp have ch: "choose_test env data1 data2 p1 p2 pl = Inr (t, p, ty)" by simp
  from choose_test_spec[OF ch] r cp have
    "case spec_choice (passes p1) (passes p2) (passes pl) of
        EqualVariance \<Rightarrow> test_type r = ''T-test (varianzas iguales)''
                           \<and> ttest_ind env data1 data2 True = Inr (statistic r, p_value r)
      | Welch \<Rightarrow> test_type r = ''T-test de Welch (varianzas diferentes)''
                           \<and> ttest_ind env data1 data2 False = Inr (statistic r, p_value r)
      | MannWhitney \<Rightarrow> test_type r = ''Mann-Whitney U''
                           \<and> mannwhitneyu env data1 data2 = Inr (statistic r, p_value r)"
    by (auto split: test_choice.splits)
  with d1 d2 lv normality_p_cases[OF n1] normality_p_cases[OF n2] show ?thesis by blast
qed


lemma samples_groups:
  "group_sample df_groups ''x'' ''g'' (S ''a'') = Inr [1, 2, 3]"
  "group_sample df_groups ''x'' ''g'' (S ''b'') = Inr [4, 5, 6]"
  by (simp_all add: frame_eval group_sample_def df_groups_def)

theorem t_test_decision_witness:
  "\<exists>r. perform_t_test env0 df_groups ''x'' ''g'' (S ''a'') (S ''b'') = Inr r
     \<and> group_sample df_groups ''x'' ''g'' (S ''a'') = Inr [1, 2, 3]
     \<and> group_sample df_groups ''x'' ''g'' (S ''b'') = Inr [4, 5, 6]
     \<and> shapiro env0 [1, 2, 3] = Inr (Fin 1, Fin 1)
     \<and> shapiro env0 [4, 5, 6] = Inr (Fin 1, Fin 1)
     \<and> levene env0 [1, 2, 3] [4, 5, 6] = Inr (Fin 0, Fin 1)
     \<and> spec_choice (passes (Fin 1)) (passes (Fin 1)) (passes (Fin 1)) = EqualVariance
     \<and> test_type r = ''T-test (varianzas iguales)''
     \<and> ttest_ind env0 [1, 2, 3] [4, 5, 6] True = Inr (statistic r, p_value r)"
proof -
  obtain r where r: "perform_t_test env0 df_groups ''x'' ''g'' (S ''a'') (S ''b'') = Inr r"
    using t_groups by blast
  have sh: "shapiro env0 [1, 2, 3] = Inr (Fin 1, Fin 1)" "shapiro env0 [4, 5, 6] = Inr (Fin 1, Fin 1)"
    and lv: "levene env0 [1, 2, 3] [4, 5, 6] = Inr (Fin 0, Fin 1)"
    and sc: "spec_choice (passes (Fin 1)) (passes (Fin 1)) (passes (Fin 1)) = EqualVariance"
    by (simp_all add: env0_def spec_choice_def passes_def)
  from t_test_decision [OF r] obtain data1 data2 p1 p2 w pl where
    d: "group_sample df_groups ''x'' ''g'' (S ''a'') = Inr data1"
       "group_sample df_groups ''x'' ''g'' (S ''b'') = Inr data2" and
    n: "length data1 < 5000 \<longrightarrow> (\<exists>w1. shapiro env0 data1 = Inr (w1, p1))"
       "length data2 < 5000 \<longrightarrow> (\<exists>w2. shapiro env0 data2 = Inr (w2, p2))" and
    l: "levene env0 data1 data2 = Inr (w, pl)" and
    c: "case spec_choice (passes p1) (passes p2) (passes pl) of
        EqualVariance \<Rightarrow> test_type r = ''T-test (varianzas iguales)''
                           \<and> ttest_ind env0 data1 data2 True = Inr (statistic r, p_value r)
      | Welch \<Rightarrow> test_type r = ''T-test de Welch (varianzas diferentes)''
                           \<and> ttest_ind env0 data1 data2 False = Inr (statistic r, p_value r)
      | MannWhitney \<Rightarrow> test_type r = ''Mann-Whitney U''
                           \<and> mannwhitneyu env0 data1 data2 = Inr (statistic r, p_value r)"
    by blast
  from d samples_groups have e: "data1 = [1, 2, 3]" "data2 = [4, 5, 6]" by simp_all
  with n sh l lv have "p1 = Fin 1" "p2 = Fin 1" "pl = Fin 1" by simp_all
  with c sc e have "test_type r = ''T-test (varianzas iguales)''
      \<and> ttest_ind env0 [1, 2, 3] [4, 5, 6] True = Inr (statistic r, p_value r)" by simp
  with r samples_groups sh lv sc show ?thesis by blast
qed

text \<open>The other branches, with a library whose variance check, or normality check,
  fails; a p-value of exactly 0 fails the check as well.\<close>

lemma welch_example:
  "\<exists>r. perform_t_test (env0\<lparr>levene := \<lambda>xs ys. Inr (Fin 9, Fin (1 / 100))\<rparr>)
          df_groups ''x'' ''g'' (S ''a'') (S ''b'') = Inr r
     \<and> test_type r = ''T-test de Welch (varianzas diferentes)''"
  by (simp add: frame_eval t_eval env0_def df_groups_def)

lemma rank_example:
  "\<exists>r. perform_t_test (env0\<lparr>shapiro := \<lambda>xs. Inr (Fin (1 / 2), Fin (1 / 100))\<rparr>)
          df_groups ''x'' ''g'' (S ''a'') (S ''b'') = Inr r
     \<and> test_type r = ''Mann-Whitney U''"
  by (simp add: frame_eval t_eval env0_def df_groups_def)

lemma zero_p_example:
  "\<exists>r. perform_t_test (env0\<lparr>shapiro := \<lambda>xs. Inr (Fin 0, Fin 0)\<rparr>)
          df_groups ''x'' ''g'' (S ''a'') (S ''b'') = Inr r
     \<and> test_type r = ''Mann-Whitney U''"
  by (simp add: frame_eval t_eval env0_def df_groups_def)

text \<open>From 5000 observations on, the normality test is not run: a library whose
  normality test always raises still lets the comparison through.\<close>

lemma normality_p_large:
  "normality_p (env0\<lparr>shapiro := \<lambda>xs. Inl ValueError\<rparr>) (replicate 5000 x) = Inr (Fin 1)"
  "normality_p (env0\<lparr>shapiro := \<lambda>xs. Inl ValueError\<rparr>) (replicate 4999 x) = Inl ValueError"
  by (simp_all add: normality_p_def ebind_def)

section \<open>The proportion confidence interval\<close>

lemma py_max_zero: "\<exists>lo. py_max (Fin 0) x = Fin lo \<and> 0 \<le> lo"
  by (cases x) (auto simp: py_max_def)

lemma py_min_one: "\<exists>hi. py_min (Fin 1) x = Fin hi \<and> hi \<le> 1"
  by (cases x) (auto simp: py_min_def)

lemma py_max_Fin: "py_max (Fin a) (Fin b) = Fin (max a b)"
  by (auto simp: py_max_def)

lemma py_min_Fin: "py_min (Fin a) (Fin b) = Fin (min a b)"
  by (auto simp: py_min_def)

text \<open>
  C6. \<^verbatim>\<open>calculate_proportion_ci\<close> returns exactly (0, 0) when the total is 0,
  whatever the other arguments. For a positive total both bounds are finite, the lower
  at least 0 and the upper at most 1; for a count between 0 and the total and a finite
  quantile \<open>z\<close> they are the normal-approximation bounds \<open>p - z * se\<close> and
  \<open>p + z * se\<close>, with \<open>p = k / t\<close> and \<open>se = sqrt (p * (1 - p) / t)\<close>, clipped at
  0 and at 1. With no success out of 100 the lower bound is 0 and the upper bound is
  not negative; with as many successes as observations the upper bound is 1 and the
  lower bound lies between 0 and 1.
\<close>

theorem proportion_ci:
  "calculate_proportion_ci env s (Fin 0) conf = (Fin 0, Fin 0)
   \<and> (0 < t \<longrightarrow> (\<exists>lo hi. calculate_proportion_ci env (Fin k) (Fin t) conf = (Fin lo, Fin hi)
                          \<and> 0 \<le> lo \<and> hi \<le> 1))
   \<and> (0 < t \<and> 0 \<le> k \<and> k \<le> t \<and> norm_ppf env (1 - (1 - conf) / 2) = Fin z \<longrightarrow>
        calculate_proportion_ci env (Fin k) (Fin t) conf =
          (Fin (max 0 (k / t - z * sqrt (k / t * (1 - k / t) / t))),
           Fin (min 1 (k / t + z * sqrt (k / t * (1 - k / t) / t)))))
   \<and> (\<exists>hi. calculate_proportion_ci env (Fin 0) (Fin 100) conf = (Fin 0, Fin hi) \<and> 0 \<le> hi)
   \<and> (0 < t \<longrightarrow> (\<exists>lo. calculate_proportion_ci env (Fin t) (Fin t) conf = (Fin lo, Fin 1)
                       \<and> 0 \<le> lo \<and> lo \<le> 1))"
proof (intro conjI impI)
  show "calculate_proportion_ci env s (Fin 0) conf = (Fin 0, Fin 0)"
    by (simp add: calculate_proportion_ci_def)
next
  assume "0 < t"
  then show "\<exists>lo hi. calculate_proportion_ci env (Fin k) (Fin t) conf = (Fin lo, Fin hi)
                          \<and> 0 \<le> lo \<and> hi \<le> 1"
    using py_max_zero py_min_one
    by (simp add: calculate_proportion_ci_def Let_def) blast
next
  assume a: "0 < t \<and> 0 \<le> k \<and> k \<le> t \<and> norm_ppf env (1 - (1 - conf) / 2) = Fin z"
  then have "0 \<le> k / t" "0 \<le> 1 - k / t" by simp_all
  then have "0 \<le> k / t * (1 - k / t) / t" using a by simp
  then have "\<not> k / t * (1 - k / t) / t < 0" by simp
  with a show "calculate_proportion_ci env (Fin k) (Fin t) conf =
          (Fin (max 0 (k / t - z * sqrt (k / t * (1 - k / t) / t))),
           Fin (min 1 (k / t + z * sqrt (k / t * (1 - k / t) / t))))"
    by (simp add: calculate_proportion_ci_def Let_def py_max_Fin py_min_Fin)
next
  show "\<exists>hi. calculate_proportion_ci env (Fin 0) (Fin 100) conf = (Fin 0, Fin hi) \<and> 0 \<le> hi"
    by (cases "norm_ppf env (1 - (1 - conf) / 2)")
       (simp_all add: calculate_proportion_ci_def Let_def py_max_def py_min_def)
next
  assume "0 < t"
  then show "\<exists>lo. calculate_proportion_ci env (Fin t) (Fin t) conf = (Fin lo, Fin 1)
                       \<and> 0 \<le> lo \<and> lo \<le> 1"
    by (cases "norm_ppf env (1 - (1 - conf) / 2)")
       (simp_all add: calculate_proportion_ci_def Let_def py_max_def py_min_def)
qed

lemma sqrt_400th: "sqrt (1 / 400) = 1 / 20"
  by (rule real_sqrt_unique) (simp_all add: power2_eq_square)

theorem proportion_ci_witness:
  "(0::real) < 100 \<and> (0::real) \<le> 50 \<and> (50::real) \<le> 100
   \<and> norm_ppf env0 (1 - (1 - 0.95) / 2) = Fin (49 / 25)
   \<and> calculate_proportion_ci env0 (Fin 50) (Fin 100) 0.95 = (Fin (201 / 500), Fin (299 / 500))
   \<and> calculate_proportion_ci env0 (Fin 50) (Fin 0) 0.95 = (Fin 0, Fin 0)
   \<and> calculate_proportion_ci env0 (Fin 0) (Fin 100) 0.95 = (Fin 0, Fin 0)
   \<and> calculate_proportion_ci env0 (Fin 100) (Fin 100) 0.95 = (Fin 1, Fin 1)"
proof -
  have z: "norm_ppf env0 (1 - (1 - 0.95) / 2) = Fin (49 / 25)" by (simp add: env0_def)
  have h: "(0::real) < 100 \<and> (0::real) \<le> 50 \<and> (50::real) \<le> 100
       \<and> norm_ppf env0 (1 - (1 - 0.95) / 2) = Fin (49 / 25)" using z by simp
  have h0: "(0::real) < 100 \<and> (0::real) \<le> 0 \<and> (0::real) \<le> 100
       \<and> norm_ppf env0 (1 - (1 - 0.95) / 2) = Fin (49 / 25)" using z by simp
  have h1: "(0::real) < 100 \<and> (0::real) \<le> 100 \<and> (100::real) \<le> 100
       \<and> norm_ppf env0 (1 - (1 - 0.95) / 2) = Fin (49 / 25)" using z by simp
  note p = proportion_ci [where env = env0 and conf = "0.95" and t = 100 and z = "49 / 25"]
  have "calculate_proportion_ci env0 (Fin 50) (Fin 100) 0.95 = (Fin (201 / 500), Fin (299 / 500))"
    using p [where s = "Fin 50" and k = 50] h by (simp add: sqrt_400th)
  moreover have "calculate_proportion_ci env0 (Fin 50) (Fin 0) 0.95 = (Fin 0, Fin 0)"
    using p [where s = "Fin 50" and k = 50] by simp
  moreover have "calculate_proportion_ci env0 (Fin 0) (Fin 100) 0.95 = (Fin 0, Fin 0)"
    using p [where s = "Fin 50" and k = 0] h0 by simp
  moreover have "calculate_proportion_ci env0 (Fin 100) (Fin 100) 0.95 = (Fin 1, Fin 1)"
    using p [where s = "Fin 50" and k = 100] h1 by simp
  ultimately show ?thesis using h by simp
qed

section \<open>Cohen's d\<close>






lemma perform_t_test_cohens_d:
  assumes "perform_t_test env df numeric_var group_var group1 group2 = Inr r"
  shows "\<exists>data1 data2.
     group_sample df numeric_var group_var group1 = Inr data1 \<and>
     group_sample df numeric_var group_var group2 = Inr data2 \<and>
     mean_group1 r = series_mean data1 \<and> mean_group2 r = series_mean data2 \<and>
     cohens_d r =
       (let pooled = np_sqrt (fdiv (fadd (fmul (series_std data1) (series_std data1))
                                          (fmul (series_std data2) (series_std data2))) (Fin 2))
        in if fgt pooled (Fin 0) then fdiv (fsub (series_mean data1) (series_mean data2)) pooled
           else Fin 0) \<and>
     effect_size r = interpret_cohens_d (fabs (cohens_d r))"
  using assms by (auto simp: perform_t_test_def ebind_Inr Let_def split_beta)






text \<open>On two constant groups the pooled standard deviation is 0 and the guard answers
  0, whatever the library returns, although the means differ.\<close>

lemma samples_const:
  "group_sample df_const ''x'' ''g'' (S ''a'') = Inr [1, 1, 1]"
  "group_sample df_const ''x'' ''g'' (S ''b'') = Inr [2, 2, 2]"
  by (simp_all add: frame_eval group_sample_def df_const_def)

lemma cohens_d_const:
  assumes "perform_t_test env df_const ''x'' ''g'' (S ''a'') (S ''b'') = Inr r"
  shows "cohens_d r = Fin 0 \<and> mean_group1 r = Fin 1 \<and> mean_group2 r = Fin 2"
  using perform_t_test_cohens_d [OF assms] samples_const
  by (auto simp: series_mean_def series_std_def variance_def Let_def)


section \<open>Eta-squared\<close>








lemma ss_total_nonneg: "0 \<le> spec_ss_total gm gs"
  unfolding spec_ss_total_def by (rule sum_list_nonneg) (auto intro!: sum_list_nonneg)



lemma numeric_Inr: "numeric c = Inr xs \<longleftrightarrow> c = NumCol xs"
  by (cases c) auto




lemma perform_anova_eta:
  assumes "perform_anova env df numeric_var group_var = Inr r"
  shows "\<exists>g xs. getitem df group_var = Inr g \<and> getitem df numeric_var = Inr (NumCol xs) \<and>
     eta_squared r =
       (let groups = map (\<lambda>(name, sample). dropna sample) (groupby (vals g) xs);
            grand_mean = series_mean (dropna xs);
            ss_between = fsum (map (\<lambda>sample. fmul (Fin (real (length sample)))
                                     (let dev = fsub (series_mean sample) grand_mean
                                      in fmul dev dev)) groups);
            ss_total = fsum (map (\<lambda>x. let dev = fsub (Fin x) grand_mean in fmul dev dev)
                               (concat groups))
        in if fgt ss_total (Fin 0) then fdiv ss_between ss_total else Fin 0)"
  using assms by (auto simp: perform_anova_def ebind_Inr Let_def split_beta numeric_Inr)








text \<open>A group whose observations are all missing has no mean: the sum of squares
  between the groups is NaN, and so is eta-squared, whatever the library returns.\<close>

lemma eta_squared_gap:
  assumes "perform_anova env df_gap ''x'' ''g'' = Inr r"
  shows "eta_squared r = NaN"
proof -
  have cols: "getitem df_gap ''g'' = Inr (ObjCol [Some ''a'', Some ''a'', Some ''b''])"
    "getitem df_gap ''x'' = Inr (NumCol [Some 1, Some 3, None])"
    by (simp_all add: getitem_def df_gap_def)
  from perform_anova_eta [OF assms] cols show ?thesis
    by (auto simp: frame_eval groupby_def group_keys_def fsum_def series_mean_def)
qed


section \<open>The occupancy estimate\<close>

lemma series_sum_spec: "series_sum ns = spec_total_nights ns"
  by (induction ns)
     (auto simp: series_sum_def spec_total_nights_def dropna_def List.map_filter_def nights_of_def)

lemma canceled_sum_spec:
  "series_sum (where_rows (map (\<lambda>x. x = Some 1) cs) ns) = spec_canceled_nights cs ns"
proof (induction cs arbitrary: ns)
  case Nil
  then show ?case
    by (simp add: series_sum_def where_rows_def spec_canceled_nights_def dropna_def
        List.map_filter_def)
next
  case (Cons c cs)
  show ?case
  proof (cases ns)
    case Nil
    then show ?thesis
      by (simp add: series_sum_def where_rows_def spec_canceled_nights_def dropna_def
          List.map_filter_def)
  next
    case (Cons x xs)
    with Cons.IH [of xs] show ?thesis
      by (auto simp: series_sum_def where_rows_def spec_canceled_nights_def dropna_def
          List.map_filter_def nights_of_def)
  qed
qed

lemma canceled_le_total:
  assumes "\<forall>x\<in>set ns. 0 \<le> nights_of x"
  shows "0 \<le> spec_canceled_nights cs ns \<and> spec_canceled_nights cs ns \<le> spec_total_nights ns"
  using assms
proof (induction ns arbitrary: cs)
  case Nil
  then show ?case by (simp add: spec_canceled_nights_def spec_total_nights_def)
next
  case (Cons x xs)
  show ?case
  proof (cases cs)
    case Nil
    with Cons.prems show ?thesis
      by (auto simp: spec_canceled_nights_def spec_total_nights_def intro!: sum_list_nonneg add_nonneg_nonneg)
  next
    case (Cons c cs')
    with Cons.IH [of cs'] Cons.prems show ?thesis
      by (auto simp: spec_canceled_nights_def spec_total_nights_def)
  qed
qed

lemma optional_numeric_Inr:
  "optional_numeric df name = Inr v \<longleftrightarrow>
     (if has_column df name then \<exists>xs. getitem df name = Inr (NumCol xs) \<and> v = Some xs
      else v = None)"
  by (auto simp: optional_numeric_def ebind_Inr numeric_Inr)

lemma business_metrics_occupancy:
  assumes "calculate_business_metrics env df = Inr m"
  obtains canceled nights where
    "getitem df ''is_canceled'' = Inr (NumCol canceled)"
    "optional_numeric df ''total_stay_nights'' = Inr nights"
    "m ''estimated_occupancy_rate'' =
       Some (let t = (case nights of Some ns \<Rightarrow> series_sum ns | None \<Rightarrow> 0);
                 c = (case nights of
                        Some ns \<Rightarrow> series_sum (where_rows (map (\<lambda>x. x = Some 1) canceled) ns)
                      | None \<Rightarrow> 0)
             in if t > 0 then Fin ((t - c) / t) else Fin 0)"
  using assms
  by (auto simp: calculate_business_metrics_def ebind_Inr numeric_Inr Let_def)

lemma has_column_getitem: "has_column df name \<longleftrightarrow> (\<exists>c. getitem df name = Inr c)"
  by (auto simp: has_column_def getitem_def split: option.splits)

text \<open>
  C7. In the snapshot that \<^verbatim>\<open>calculate_business_metrics\<close> returns, the estimated
  occupancy rate is (total room-nights - canceled room-nights) / total room-nights when
  the total is positive, and 0 when the total is 0 or the dataset has no column of
  nights; with a positive total and no negative entry of nights it lies between 0 and
  1. The function returns (no exception) whenever the columns it reads without a test
  are present and the columns it reduces are numeric.
\<close>

theorem occupancy_rate:
  "(calculate_business_metrics env df = Inr m \<longrightarrow>
      (\<not> has_column df ''total_stay_nights'' \<longrightarrow>
         m ''estimated_occupancy_rate'' = Some (Fin 0))
      \<and> (\<forall>cs ns. getitem df ''is_canceled'' = Inr (NumCol cs)
                 \<and> getitem df ''total_stay_nights'' = Inr (NumCol ns) \<longrightarrow>
           (let t = spec_total_nights ns; c = spec_canceled_nights cs ns in
              (0 < t \<longrightarrow> m ''estimated_occupancy_rate'' = Some (Fin ((t - c) / t)))
              \<and> (t = 0 \<longrightarrow> m ''estimated_occupancy_rate'' = Some (Fin 0))
              \<and> (0 < t \<and> (\<forall>x\<in>set ns. 0 \<le> nights_of x) \<longrightarrow>
                   0 \<le> (t - c) / t \<and> (t - c) / t \<le> 1))))
   \<and> ((\<exists>cs. getitem df ''is_canceled'' = Inr (NumCol cs))
       \<and> (\<exists>ls. getitem df ''lead_time'' = Inr (NumCol ls))
       \<and> (\<exists>h. getitem df ''hotel'' = Inr h)
       \<and> (\<forall>c. getitem df ''adr'' = Inr c \<longrightarrow> (\<exists>a. c = NumCol a))
       \<and> (\<forall>c. getitem df ''total_stay_nights'' = Inr c \<longrightarrow> (\<exists>ns. c = NumCol ns))
       \<longrightarrow> (\<exists>m'. calculate_business_metrics env df = Inr m'))"
proof (intro conjI impI allI)
  assume a: "calculate_business_metrics env df = Inr m"
  from business_metrics_occupancy [OF a] obtain canceled nights where
    k: "getitem df ''is_canceled'' = Inr (NumCol canceled)" and
    o: "optional_numeric df ''total_stay_nights'' = Inr nights" and
    v: "m ''estimated_occupancy_rate'' =
       Some (let t = (case nights of Some ns \<Rightarrow> series_sum ns | None \<Rightarrow> 0);
                 c = (case nights of
                        Some ns \<Rightarrow> series_sum (where_rows (map (\<lambda>x. x = Some 1) canceled) ns)
                      | None \<Rightarrow> 0)
             in if t > 0 then Fin ((t - c) / t) else Fin 0)"
    .
  assume "\<not> has_column df ''total_stay_nights''"
  with o have "nights = None" by (simp add: optional_numeric_Inr)
  with v show "m ''estimated_occupancy_rate'' = Some (Fin 0)" by simp
next
  fix cs ns
  assume a: "calculate_business_metrics env df = Inr m"
  assume c: "getitem df ''is_canceled'' = Inr (NumCol cs)
                 \<and> getitem df ''total_stay_nights'' = Inr (NumCol ns)"
  from business_metrics_occupancy [OF a] obtain canceled nights where
    k: "getitem df ''is_canceled'' = Inr (NumCol canceled)" and
    o: "optional_numeric df ''total_stay_nights'' = Inr nights" and
    v: "m ''estimated_occupancy_rate'' =
       Some (let t = (case nights of Some ns \<Rightarrow> series_sum ns | None \<Rightarrow> 0);
                 c = (case nights of
                        Some ns \<Rightarrow> series_sum (where_rows (map (\<lambda>x. x = Some 1) canceled) ns)
                      | None \<Rightarrow> 0)
             in if t > 0 then Fin ((t - c) / t) else Fin 0)"
    .
  from c k have cs: "canceled = cs" by simp
  from c have "has_column df ''total_stay_nights''" by (auto simp: has_column_getitem)
  with o c have ns: "nights = Some ns" by (simp add: optional_numeric_Inr)
  let ?t = "spec_total_nights ns" and ?c = "spec_canceled_nights cs ns"
  from v cs ns have "m ''estimated_occupancy_rate'' =
       Some (if 0 < series_sum ns then Fin ((series_sum ns - ?c) / series_sum ns) else Fin 0)"
    by (simp add: canceled_sum_spec Let_def)
  then have val: "m ''estimated_occupancy_rate'' =
       Some (if 0 < ?t then Fin ((?t - ?c) / ?t) else Fin 0)"
    by (simp only: series_sum_spec)
  have range: "0 \<le> (?t - ?c) / ?t \<and> (?t - ?c) / ?t \<le> 1"
    if "0 < ?t \<and> (\<forall>x\<in>set ns. 0 \<le> nights_of x)"
    using that canceled_le_total [of ns cs] by simp
  from val range show "let t = spec_total_nights ns; c = spec_canceled_nights cs ns in
              (0 < t \<longrightarrow> m ''estimated_occupancy_rate'' = Some (Fin ((t - c) / t)))
              \<and> (t = 0 \<longrightarrow> m ''estimated_occupancy_rate'' = Some (Fin 0))
              \<and> (0 < t \<and> (\<forall>x\<in>set ns. 0 \<le> nights_of x) \<longrightarrow>
                   0 \<le> (t - c) / t \<and> (t - c) / t \<le> 1)"
    unfolding Let_def by auto
next
  assume "(\<exists>cs. getitem df ''is_canceled'' = Inr (NumCol cs))
       \<and> (\<exists>ls. getitem df ''lead_time'' = Inr (NumCol ls))
       \<and> (\<exists>h. getitem df ''hotel'' = Inr h)
       \<and> (\<forall>c. getitem df ''adr'' = Inr c \<longrightarrow> (\<exists>a. c = NumCol a))
       \<and> (\<forall>c. getitem df ''total_stay_nights'' = Inr c \<longrightarrow> (\<exists>ns. c = NumCol ns))"
  then obtain cs ls h where
    c: "getitem df ''is_canceled'' = Inr (NumCol cs)" "getitem df ''lead_time'' = Inr (NumCol ls)"
       "getitem df ''hotel'' = Inr h" and
    a: "\<forall>c. getitem df ''adr'' = Inr c \<longrightarrow> (\<exists>a. c = NumCol a)" and
    n: "\<forall>c. getitem df ''total_stay_nights'' = Inr c \<longrightarrow> (\<exists>ns. c = NumCol ns)"
    by blast
  from a obtain adr where adr: "optional_numeric df ''adr'' = Inr adr"
    by (cases "has_column df ''adr''") (auto simp: optional_numeric_Inr has_column_getitem)
  from n obtain nights where nights: "optional_numeric df ''total_stay_nights'' = Inr nights"
    by (cases "has_column df ''total_stay_nights''")
       (auto simp: optional_numeric_Inr has_column_getitem)
  from c adr nights show "\<exists>m'. calculate_business_metrics env df = Inr m'"
    by (simp add: calculate_business_metrics_def ebind_def Let_def)
qed


lemma columns_hotel:
  "getitem df_hotel ''is_canceled'' = Inr (NumCol [Some 1, Some 0, Some 1, Some 0])"
  "getitem df_hotel ''lead_time'' = Inr (NumCol [Some 10, Some 20, None, Some 30])"
  "getitem df_hotel ''hotel'' = Inr (ObjCol [Some ''City'', Some ''City'', Some ''Resort'', None])"
  "getitem df_hotel ''adr'' = Inr (NumCol [Some 100, Some 0, Some 50, Some 80])"
  "getitem df_hotel ''total_stay_nights'' = Inr (NumCol [Some 1, Some 2, Some 3, Some 4])"
  "getitem (take 4 df_hotel) ''is_canceled'' = Inr (NumCol [Some 1, Some 0, Some 1, Some 0])"
  "getitem (take 4 df_hotel) ''lead_time'' = Inr (NumCol [Some 10, Some 20, None, Some 30])"
  "getitem (take 4 df_hotel) ''hotel''
     = Inr (ObjCol [Some ''City'', Some ''City'', Some ''Resort'', None])"
  "getitem (take 4 df_hotel) ''adr'' = Inr (NumCol [Some 100, Some 0, Some 50, Some 80])"
  "getitem (take 4 df_hotel) ''total_stay_nights'' = Inl KeyError"
  by (simp_all add: getitem_def df_hotel_def)

lemma nights_hotel:
  "spec_total_nights [Some 1, Some 2, Some 3, Some 4] = 10"
  "spec_canceled_nights [Some 1, Some 0, Some 1, Some 0] [Some 1, Some 2, Some 3, Some 4] = 4"
  "\<forall>x\<in>set [Some 1, Some 2, Some 3, Some (4 :: real)]. 0 \<le> nights_of x"
  by (simp_all add: spec_total_nights_def spec_canceled_nights_def nights_of_def)

theorem occupancy_rate_witness:
  "(\<exists>m. calculate_business_metrics env0 df_hotel = Inr m
        \<and> getitem df_hotel ''is_canceled'' = Inr (NumCol [Some 1, Some 0, Some 1, Some 0])
        \<and> getitem df_hotel ''total_stay_nights'' = Inr (NumCol [Some 1, Some 2, Some 3, Some 4])
        \<and> 0 < spec_total_nights [Some 1, Some 2, Some 3, Some 4]
        \<and> (\<forall>x\<in>set [Some 1, Some 2, Some 3, Some (4 :: real)]. 0 \<le> nights_of x)
        \<and> m ''estimated_occupancy_rate'' = Some (Fin (3 / 5)))
   \<and> (\<exists>m. calculate_business_metrics env0 (take 4 df_hotel) = Inr m
        \<and> \<not> has_column (take 4 df_hotel) ''total_stay_nights''
        \<and> m ''estimated_occupancy_rate'' = Some (Fin 0))"
proof
  from occupancy_rate [of env0 df_hotel] columns_hotel
  obtain m where m: "calculate_business_metrics env0 df_hotel = Inr m" by auto
  from occupancy_rate [of env0 df_hotel m] m columns_hotel(1,5)
  have "let t = spec_total_nights [Some 1, Some 2, Some 3, Some 4];
            c = spec_canceled_nights [Some 1, Some 0, Some 1, Some 0] [Some 1, Some 2, Some 3, Some 4]
        in (0 < t \<longrightarrow> m ''estimated_occupancy_rate'' = Some (Fin ((t - c) / t)))"
    by (simp add: Let_def)
  then have "m ''estimated_occupancy_rate'' = Some (Fin (3 / 5))"
    by (simp add: nights_hotel)
  with m columns_hotel(1,5) nights_hotel
  show "\<exists>m. calculate_business_metrics env0 df_hotel = Inr m
        \<and> getitem df_hotel ''is_canceled'' = Inr (NumCol [Some 1, Some 0, Some 1, Some 0])
        \<and> getitem df_hotel ''total_stay_nights'' = Inr (NumCol [Some 1, Some 2, Some 3, Some 4])
        \<and> 0 < spec_total_nights [Some 1, Some 2, Some 3, Some 4]
        \<and> (\<forall>x\<in>set [Some 1, Some 2, Some 3, Some (4 :: real)]. 0 \<le> nights_of x)
        \<and> m ''estimated_occupancy_rate'' = Some (Fin (3 / 5))"
    by simp
next
  have h: "\<not> has_column (take 4 df_hotel) ''total_stay_nights''"
    by (simp add: has_column_getitem columns_hotel)
  from occupancy_rate [of env0 "take 4 df_hotel"] columns_hotel
  obtain m where m: "calculate_business_metrics env0 (take 4 df_hotel) = Inr m" by auto
  from occupancy_rate [of env0 "take 4 df_hotel" m] m h
  have "m ''estimated_occupancy_rate'' = Some (Fin 0)" by simp
  with m h show "\<exists>m. calculate_business_metrics env0 (take 4 df_hotel) = Inr m
        \<and> \<not> has_column (take 4 df_hotel) ''total_stay_nights''
        \<and> m ''estimated_occupancy_rate'' = Some (Fin 0)"
    by simp
qed

section \<open>The feature importance ranking\<close>










section \<open>Pearson's statistic\<close>

lemma pearson_expand: "0 < e \<Longrightarrow> pearson x e = x\<^sup>2 / e - 2 * x + e"
  by (simp add: pearson_def power2_eq_square field_simps)

lemma pearson_nonneg: "0 < e \<Longrightarrow> 0 \<le> pearson x e"
  by (simp add: pearson_def)

lemma yates_closer: "\<bar>yates x e - e\<bar> \<le> \<bar>x - e\<bar>"
  by (auto simp: yates_def sgn_real_def min_def abs_real_def)

lemma pearson_yates_le: "0 < e \<Longrightarrow> pearson (yates x e) e \<le> pearson x e"
proof -
  assume e: "0 < e"
  have "(yates x e - e)\<^sup>2 \<le> (x - e)\<^sup>2"
    using yates_closer [of x e] by (simp add: abs_le_square_iff)
  with e show ?thesis by (simp add: pearson_def divide_right_mono)
qed

text \<open>Pearson's statistic of a table with positive margins is at most the total
  times the smaller dimension less one.\<close>

lemma pearson_sum_bound_cols:
  fixes g :: "'a \<Rightarrow> 'b \<Rightarrow> real"
  assumes fin: "finite A" "finite B"
    and nonneg: "\<And>r c. r \<in> A \<Longrightarrow> c \<in> B \<Longrightarrow> 0 \<le> g r c"
    and rpos: "\<And>r. r \<in> A \<Longrightarrow> 0 < (\<Sum>c\<in>B. g r c)"
    and cpos: "\<And>c. c \<in> B \<Longrightarrow> 0 < (\<Sum>r\<in>A. g r c)"
    and npos: "0 < (\<Sum>r\<in>A. \<Sum>c\<in>B. g r c)"
  shows "(\<Sum>r\<in>A. \<Sum>c\<in>B. pearson (g r c)
            ((\<Sum>c\<in>B. g r c) * (\<Sum>r\<in>A. g r c) / (\<Sum>r\<in>A. \<Sum>c\<in>B. g r c)))
         \<le> (\<Sum>r\<in>A. \<Sum>c\<in>B. g r c) * (real (card B) - 1)"
proof -
  define R where "R r = (\<Sum>c\<in>B. g r c)" for r
  define C where "C c = (\<Sum>r\<in>A. g r c)" for c
  define n where "n = (\<Sum>r\<in>A. \<Sum>c\<in>B. g r c)"
  have nR: "n = (\<Sum>r\<in>A. R r)" by (simp add: n_def R_def)
  have nC: "n = (\<Sum>c\<in>B. C c)" unfolding n_def C_def by (rule sum.swap)
  have Rpos: "0 < R r" if "r \<in> A" for r using rpos [OF that] by (simp add: R_def)
  have Cpos: "0 < C c" if "c \<in> B" for c using cpos [OF that] by (simp add: C_def)
  have n0: "0 < n" using npos by (simp add: n_def)
  have Epos: "0 < R r * C c / n" if "r \<in> A" "c \<in> B" for r c
    using Rpos [OF that(1)] Cpos [OF that(2)] n0 by simp
  have gR: "g r c \<le> R r" if "r \<in> A" "c \<in> B" for r c
    unfolding R_def using fin that nonneg by (intro member_le_sum) auto
  have tm: "pearson (g r c) (R r * C c / n) \<le> n * (g r c / C c) - 2 * g r c + R r * C c / n"
    if "r \<in> A" "c \<in> B" for r c
  proof -
    have eq: "(g r c)\<^sup>2 / (R r * C c / n) = n * ((g r c / R r) * (g r c / C c))"
      using Rpos [OF that(1)] Cpos [OF that(2)] n0 by (simp add: power2_eq_square field_simps)
    have "(g r c / R r) * (g r c / C c) \<le> 1 * (g r c / C c)"
      using gR [OF that] Rpos [OF that(1)] Cpos [OF that(2)] nonneg [OF that]
      by (intro mult_right_mono) simp_all
    then have "n * ((g r c / R r) * (g r c / C c)) \<le> n * (g r c / C c)"
      using n0 by (simp only: mult_le_cancel_left_pos mult_1)
    then have "(g r c)\<^sup>2 / (R r * C c / n) \<le> n * (g r c / C c)"
      by (simp only: eq)
    then show ?thesis by (simp add: pearson_expand [OF Epos [OF that]])
  qed
  have "(\<Sum>r\<in>A. \<Sum>c\<in>B. pearson (g r c) (R r * C c / n))
        \<le> (\<Sum>r\<in>A. \<Sum>c\<in>B. n * (g r c / C c) - 2 * g r c + R r * C c / n)"
    by (intro sum_mono tm)
  also have "\<dots> = n * (\<Sum>r\<in>A. \<Sum>c\<in>B. g r c / C c) - 2 * n + (\<Sum>r\<in>A. \<Sum>c\<in>B. R r * C c / n)"
    by (simp add: sum.distrib sum_subtractf sum_distrib_left n_def)
  also have "(\<Sum>r\<in>A. \<Sum>c\<in>B. g r c / C c) = (\<Sum>c\<in>B. \<Sum>r\<in>A. g r c / C c)"
    by (rule sum.swap)
  also have "(\<Sum>c\<in>B. \<Sum>r\<in>A. g r c / C c) = (\<Sum>c\<in>B. 1)"
  proof (rule sum.cong)
    fix c assume "c \<in> B"
    have "(\<Sum>r\<in>A. g r c / C c) = C c / C c"
      by (simp add: sum_divide_distrib [symmetric] C_def)
    with Cpos [OF \<open>c \<in> B\<close>] show "(\<Sum>r\<in>A. g r c / C c) = 1" by simp
  qed simp
  also have "(\<Sum>r\<in>A. \<Sum>c\<in>B. R r * C c / n) = n"
  proof -
    have "(\<Sum>r\<in>A. \<Sum>c\<in>B. R r * C c / n) = (\<Sum>r\<in>A. R r) * (\<Sum>c\<in>B. C c) / n"
      by (simp add: sum_product sum_divide_distrib)
    with nR nC n0 show ?thesis by simp
  qed
  finally have "(\<Sum>r\<in>A. \<Sum>c\<in>B. pearson (g r c) (R r * C c / n)) \<le> n * (real (card B) - 1)"
    by (simp add: algebra_simps)
  then show ?thesis by (simp add: R_def C_def n_def)
qed


lemma pearson_sum_bound_rows:
  fixes g :: "'a \<Rightarrow> 'b \<Rightarrow> real"
  assumes fin: "finite A" "finite B"
    and nonneg: "\<And>r c. r \<in> A \<Longrightarrow> c \<in> B \<Longrightarrow> 0 \<le> g r c"
    and rpos: "\<And>r. r \<in> A \<Longrightarrow> 0 < (\<Sum>c\<in>B. g r c)"
    and cpos: "\<And>c. c \<in> B \<Longrightarrow> 0 < (\<Sum>r\<in>A. g r c)"
    and npos: "0 < (\<Sum>r\<in>A. \<Sum>c\<in>B. g r c)"
  shows "(\<Sum>r\<in>A. \<Sum>c\<in>B. pearson (g r c)
            ((\<Sum>c\<in>B. g r c) * (\<Sum>r\<in>A. g r c) / (\<Sum>r\<in>A. \<Sum>c\<in>B. g r c)))
         \<le> (\<Sum>r\<in>A. \<Sum>c\<in>B. g r c) * (real (card A) - 1)"
proof -
  have sw: "(\<Sum>c\<in>B. \<Sum>r\<in>A. g r c) = (\<Sum>r\<in>A. \<Sum>c\<in>B. g r c)" by (rule sum.swap)
  have "(\<Sum>c\<in>B. \<Sum>r\<in>A. pearson (g r c)
            ((\<Sum>r\<in>A. g r c) * (\<Sum>c\<in>B. g r c) / (\<Sum>c\<in>B. \<Sum>r\<in>A. g r c)))
         \<le> (\<Sum>c\<in>B. \<Sum>r\<in>A. g r c) * (real (card A) - 1)"
    using fin nonneg rpos cpos npos
    by (intro pearson_sum_bound_cols [of B A "\<lambda>c r. g r c"]) (simp_all add: sw)
  then have "(\<Sum>c\<in>B. \<Sum>r\<in>A. pearson (g r c)
            ((\<Sum>c\<in>B. g r c) * (\<Sum>r\<in>A. g r c) / (\<Sum>r\<in>A. \<Sum>c\<in>B. g r c)))
         \<le> (\<Sum>r\<in>A. \<Sum>c\<in>B. g r c) * (real (card A) - 1)"
    by (simp only: sw mult.commute)
  then show ?thesis
    by (subst sum.swap) simp
qed

lemma pearson_sum_bound:
  fixes g :: "'a \<Rightarrow> 'b \<Rightarrow> real"
  assumes "finite A" "finite B"
    and "\<And>r c. r \<in> A \<Longrightarrow> c \<in> B \<Longrightarrow> 0 \<le> g r c"
    and "\<And>r. r \<in> A \<Longrightarrow> 0 < (\<Sum>c\<in>B. g r c)"
    and "\<And>c. c \<in> B \<Longrightarrow> 0 < (\<Sum>r\<in>A. g r c)"
    and "0 < (\<Sum>r\<in>A. \<Sum>c\<in>B. g r c)"
  shows "(\<Sum>r\<in>A. \<Sum>c\<in>B. pearson (g r c)
            ((\<Sum>c\<in>B. g r c) * (\<Sum>r\<in>A. g r c) / (\<Sum>r\<in>A. \<Sum>c\<in>B. g r c)))
         \<le> (\<Sum>r\<in>A. \<Sum>c\<in>B. g r c) * (real (min (card A) (card B)) - 1)"
  using pearson_sum_bound_rows [OF assms] pearson_sum_bound_cols [OF assms]
  by (simp add: min_def)

lemma zip_map_same: "zip (map f xs) (map g xs) = map (\<lambda>x. (f x, g x)) xs"
  by (induction xs) simp_all

lemma nested_map2:
  "map2 (map2 h) (map (\<lambda>r. map (g r) cs) rs) (map (\<lambda>r. map (e r) cs) rs)
     = map (\<lambda>r. map (\<lambda>c. h (g r c) (e r c)) cs) rs"
  by (simp add: zip_map_same)

lemma concat_map2:
  "map2 h (concat (map (\<lambda>r. map (g r) cs) rs)) (concat (map (\<lambda>r. map (e r) cs) rs))
     = concat (map (\<lambda>r. map (\<lambda>c. h (g r c) (e r c)) cs) rs)"
  by (induction rs) (simp_all add: zip_map_same)

lemma sum_list_table:
  fixes k :: "'a \<Rightarrow> 'b \<Rightarrow> real"
  shows "sum_list (concat (map (\<lambda>r. map (k r) cs) rs))
     = sum_list (map (\<lambda>r. sum_list (map (k r) cs)) rs)"
  by (induction rs) simp_all

lemma row_sums_table:
  "row_sums (map (\<lambda>r. map (f r) cs) rs) = map (\<lambda>r. sum_list (map (f r) cs)) rs"
  by (simp add: row_sums_def comp_def)

lemma col_sums_table:
  "col_sums (length cs) (map (\<lambda>r. map (f r) cs) rs)
     = map (\<lambda>c. sum_list (map (\<lambda>r. f r c) rs)) cs"
proof -
  have "col_sums (length cs) (map (\<lambda>r. map (f r) cs) rs)
      = map (\<lambda>j. sum_list (map (\<lambda>r. f r (cs ! j)) rs)) [0..<length cs]"
    by (simp add: col_sums_def comp_def)
  also have "\<dots> = map (\<lambda>c. sum_list (map (\<lambda>r. f r c) rs)) (map (\<lambda>j. cs ! j) [0..<length cs])"
    by (simp add: comp_def)
  finally show ?thesis by (simp add: map_nth)
qed

lemma grand_total_table:
  "grand_total (map (\<lambda>r. map (f r) cs) rs) = sum_list (map (\<lambda>r. sum_list (map (f r) cs)) rs)"
  by (simp add: grand_total_def comp_def)

lemma expected_freq_table:
  "expected_freq (length cs) (map (\<lambda>r. map (f r) cs) rs)
     = map (\<lambda>r. map (\<lambda>c. real (sum_list (map (f r) cs)) * real (sum_list (map (\<lambda>r. f r c) rs))
                         / real (sum_list (map (\<lambda>r. sum_list (map (f r) cs)) rs))) cs) rs"
  by (simp add: expected_freq_def row_sums_table col_sums_table grand_total_table comp_def)


lemma real_sum_list_distinct:
  "distinct xs \<Longrightarrow> real (sum_list (map h xs)) = (\<Sum>x\<in>set xs. real (h x))"
  by (simp add: sum_list_distinct_conv_sum_set)

lemma chi2_contingency_table:
  fixes f :: "'a \<Rightarrow> 'b \<Rightarrow> nat"
  assumes d: "distinct rs" "distinct cs" and ne: "rs \<noteq> []" "cs \<noteq> []"
    and rpos: "\<And>r. r \<in> set rs \<Longrightarrow> 0 < sum_list (map (f r) cs)"
    and cpos: "\<And>c. c \<in> set cs \<Longrightarrow> 0 < sum_list (map (\<lambda>r. f r c) rs)"
  shows "\<exists>chi2 pv ex.
      chi2_contingency env (length rs, length cs) (map (\<lambda>r. map (f r) cs) rs)
        = Inr (chi2, pv, (length rs - 1) * (length cs - 1), ex)
      \<and> pv = (if (length rs - 1) * (length cs - 1) = 0 then Fin 1
              else chi2_sf env chi2 ((length rs - 1) * (length cs - 1)))
      \<and> 0 \<le> chi2
      \<and> chi2 \<le> real (grand_total (map (\<lambda>r. map (f r) cs) rs))
                 * (real (min (length rs) (length cs)) - 1)
      \<and> 0 < grand_total (map (\<lambda>r. map (f r) cs) rs)"
proof -
  define M where "M = map (\<lambda>r. map (f r) cs) rs"
  define A where "A = set rs"
  define B where "B = set cs"
  define g where "g r c = real (f r c)" for r c
  define n where "n = (\<Sum>r\<in>A. \<Sum>c\<in>B. g r c)"
  define E where "E r c = (\<Sum>c\<in>B. g r c) * (\<Sum>r\<in>A. g r c) / n" for r c
  define dof where "dof = (length rs - 1) * (length cs - 1)"
  have fin: "finite A" "finite B" by (simp_all add: A_def B_def)
  have card: "card A = length rs" "card B = length cs"
    using d by (simp_all add: A_def B_def distinct_card)
  have R: "real (sum_list (map (f r) cs)) = (\<Sum>c\<in>B. g r c)" for r
    using d(2) by (simp add: real_sum_list_distinct B_def g_def)
  have C: "real (sum_list (map (\<lambda>r. f r c) rs)) = (\<Sum>r\<in>A. g r c)" for c
    using d(1) by (simp add: real_sum_list_distinct A_def g_def)
  have N: "real (sum_list (map (\<lambda>r. sum_list (map (f r) cs)) rs)) = n"
    using d by (simp add: real_sum_list_distinct A_def B_def g_def n_def
        sum_list_distinct_conv_sum_set)
  have total: "real (grand_total M) = n"
    unfolding M_def grand_total_table by (rule N)
  have Rpos: "0 < (\<Sum>c\<in>B. g r c)" if "r \<in> A" for r
    using rpos [of r] that unfolding R [symmetric] A_def by simp
  have Cpos: "0 < (\<Sum>r\<in>A. g r c)" if "c \<in> B" for c
    using cpos [of c] that unfolding C [symmetric] B_def by simp
  from ne have "hd rs \<in> A" by (simp add: A_def)
  then obtain r0 where r0: "r0 \<in> A" ..
  have npos: "0 < n"
  proof -
    have "(\<Sum>c\<in>B. g r0 c) \<le> n"
      unfolding n_def using fin r0
      by (intro member_le_sum) (auto simp: g_def intro!: sum_nonneg)
    with Rpos [OF r0] show ?thesis by simp
  qed
  have Epos: "0 < E r c" if "r \<in> A" "c \<in> B" for r c
    using Rpos [OF that(1)] Cpos [OF that(2)] npos by (simp add: E_def)
  have ex: "expected_freq (length cs) M = map (\<lambda>r. map (E r) cs) rs"
    unfolding M_def expected_freq_table R C N E_def ..
  have nozero: "\<not> list_ex (\<lambda>e. e = 0) (concat (map (\<lambda>r. map (E r) cs) rs))"
  proof
    assume "list_ex (\<lambda>e. e = 0) (concat (map (\<lambda>r. map (E r) cs) rs))"
    then obtain r c where "r \<in> A" "c \<in> B" "E r c = 0"
      by (auto simp: list_ex_iff A_def B_def)
    with Epos [of r c] show False by simp
  qed
  have size: "length rs * length cs \<noteq> 0" using ne by simp
  have gpos: "0 < grand_total M" using total npos by (simp flip: of_nat_0_less_iff)
  have minpos: "1 \<le> real (min (length rs) (length cs))"
    using ne by (cases rs; cases cs) simp_all
  show ?thesis
  proof (cases "dof = 0")
    case True
    have "chi2_contingency env (length rs, length cs) M
        = Inr (0, Fin 1, dof, map (\<lambda>r. map (E r) cs) rs)"
      unfolding chi2_contingency_def Let_def fst_conv snd_conv ex dof_def [symmetric]
      using size nozero True by simp
    moreover have "0 \<le> real (grand_total M) * (real (min (length rs) (length cs)) - 1)"
      using minpos npos total by simp
    ultimately show ?thesis using True gpos unfolding M_def dof_def by simp
  next
    case False
    define o' where "o' r c = (if dof = 1 then yates (g r c) (E r c) else g r c)" for r c
    define chi2 where "chi2 = (\<Sum>r\<in>A. \<Sum>c\<in>B. pearson (o' r c) (E r c))"
    have obs: "map (map real) M = map (\<lambda>r. map (g r) cs) rs"
      by (simp add: M_def g_def comp_def)
    have obs': "(if dof = 1 then map2 (map2 yates) (map (map real) M) (map (\<lambda>r. map (E r) cs) rs)
                 else map (map real) M) = map (\<lambda>r. map (o' r) cs) rs"
      unfolding obs nested_map2 o'_def by simp
    have stat: "sum_list (map2 pearson (concat (map (\<lambda>r. map (o' r) cs) rs))
                                        (concat (map (\<lambda>r. map (E r) cs) rs))) = chi2"
      unfolding concat_map2 sum_list_table chi2_def A_def B_def
      using d by (simp add: sum_list_distinct_conv_sum_set)
    have res: "chi2_contingency env (length rs, length cs) M
        = Inr (chi2, chi2_sf env chi2 dof, dof, map (\<lambda>r. map (E r) cs) rs)"
      unfolding chi2_contingency_def Let_def fst_conv snd_conv ex dof_def [symmetric] obs' stat
      using size nozero False by simp
    have lower: "0 \<le> chi2"
      unfolding chi2_def by (intro sum_nonneg pearson_nonneg Epos)
    have "chi2 \<le> (\<Sum>r\<in>A. \<Sum>c\<in>B. pearson (g r c) (E r c))"
      unfolding chi2_def o'_def
      by (intro sum_mono) (auto intro: pearson_yates_le Epos)
    also have "\<dots> \<le> n * (real (min (card A) (card B)) - 1)"
      unfolding E_def n_def
      using fin Rpos Cpos npos [unfolded n_def]
      by (intro pearson_sum_bound) (simp_all add: g_def)
    finally have upper: "chi2 \<le> real (grand_total M) * (real (min (length rs) (length cs)) - 1)"
      by (simp add: total card)
    from res lower upper False gpos show ?thesis unfolding M_def dof_def by simp
  qed
qed

lemma count_list_pos: "x \<in> set xs \<Longrightarrow> 0 < count_list xs x"
  by (induction xs) auto

lemma crosstab_parts:
  "index (crosstab a b) = sort_key val_key (remdups (map fst (pairs_of a b)))"
  "columns (crosstab a b) = sort_key val_key (remdups (map snd (pairs_of a b)))"
  "counts (crosstab a b)
     = map (\<lambda>r. map (\<lambda>c. count_list (pairs_of a b) (r, c)) (columns (crosstab a b)))
         (index (crosstab a b))"
  by (simp_all add: crosstab_def Let_def)

lemma crosstab_distinct:
  "distinct (index (crosstab a b))" "distinct (columns (crosstab a b))"
  by (simp_all add: crosstab_parts)

lemma crosstab_sets:
  "set (index (crosstab a b)) = fst ` set (pairs_of a b)"
  "set (columns (crosstab a b)) = snd ` set (pairs_of a b)"
  by (simp_all add: crosstab_parts)

lemma crosstab_empty:
  "index (crosstab a b) = [] \<longleftrightarrow> pairs_of a b = []"
  "columns (crosstab a b) = [] \<longleftrightarrow> pairs_of a b = []"
  using crosstab_sets [of a b] by (metis image_is_empty set_empty)+

lemma crosstab_row_pos:
  assumes "r \<in> set (index (crosstab a b))"
  shows "0 < sum_list (map (\<lambda>c. count_list (pairs_of a b) (r, c)) (columns (crosstab a b)))"
proof -
  from assms obtain c where p: "(r, c) \<in> set (pairs_of a b)"
    by (auto simp: crosstab_sets)
  then have "c \<in> set (columns (crosstab a b))" by (force simp: crosstab_sets)
  then have "count_list (pairs_of a b) (r, c)
      \<le> sum_list (map (\<lambda>c. count_list (pairs_of a b) (r, c)) (columns (crosstab a b)))"
    by (intro member_le_sum_list) simp_all
  with count_list_pos [OF p] show ?thesis by simp
qed

lemma crosstab_col_pos:
  assumes "c \<in> set (columns (crosstab a b))"
  shows "0 < sum_list (map (\<lambda>r. count_list (pairs_of a b) (r, c)) (index (crosstab a b)))"
proof -
  from assms obtain r where p: "(r, c) \<in> set (pairs_of a b)"
    by (auto simp: crosstab_sets)
  then have "r \<in> set (index (crosstab a b))" by (force simp: crosstab_sets)
  then have "count_list (pairs_of a b) (r, c)
      \<le> sum_list (map (\<lambda>r. count_list (pairs_of a b) (r, c)) (index (crosstab a b)))"
    by (intro member_le_sum_list) simp_all
  with count_list_pos [OF p] show ?thesis by simp
qed

text \<open>On the table of two columns with at least one complete row, the library's test
  returns, and its statistic is within Cramer's bound.\<close>

lemma chi2_contingency_crosstab:
  assumes "pairs_of a b \<noteq> []"
  defines "tab \<equiv> crosstab a b"
  shows "\<exists>chi2 pv ex.
      chi2_contingency env (shape tab) (counts tab)
        = Inr (chi2, pv, (length (index tab) - 1) * (length (columns tab) - 1), ex)
      \<and> pv = (if (length (index tab) - 1) * (length (columns tab) - 1) = 0 then Fin 1
              else chi2_sf env chi2 ((length (index tab) - 1) * (length (columns tab) - 1)))
      \<and> 0 \<le> chi2
      \<and> chi2 \<le> real (grand_total (counts tab))
                 * (real (min (length (index tab)) (length (columns tab))) - 1)
      \<and> 0 < grand_total (counts tab)"
  unfolding tab_def shape_def crosstab_parts(3)
  using assms(1)
  by (intro chi2_contingency_table crosstab_distinct crosstab_row_pos crosstab_col_pos)
     (simp_all add: crosstab_empty)

lemma chi2_contingency_no_rows:
  assumes "pairs_of a b = []"
  shows "chi2_contingency env (shape (crosstab a b)) (counts (crosstab a b)) = Inl ValueError"
  using assms by (simp add: chi2_contingency_def shape_def crosstab_parts)

end
